theory Spec2Isabelle
  imports Complex_Main "HOL-Library.Sublist" "HOL-Library.Multiset"
begin

section \<open>Python values shared by the embedded functions\<close>

text \<open>
  The exceptions the embedded functions can raise. \<open>ValueError\<close> carries its message.
\<close>

datatype exn =
    ValueError string | IndexError | ZeroDivisionError | TypeError | AssertionError
  | OverflowError

text \<open>
  Python list indexing \<open>xs[i]\<close>: an index in \<open>[-len, 0)\<close> counts from the end, anything
  outside \<open>[-len, len)\<close> raises IndexError. \<open>py_index\<close> gives the position read.
\<close>

definition py_index :: "nat \<Rightarrow> int \<Rightarrow> nat option" where
  "py_index n i =
     (if 0 \<le> i \<and> i < int n then Some (nat i)
      else if - int n \<le> i \<and> i < 0 then Some (nat (int n + i))
      else None)"

text \<open>
  A float value: a finite real, an infinity or NaN.
\<close>

datatype npfloat = Finite real | PosInf | NegInf | NaN

section \<open>The oversampling index builder (m2m\_imbalance\_svhn.py)\<close>

text \<open>
  \<open>get_imbalanced_data(dataset, num_sample_per_class)\<close>. Only the label of a sample is
  read, so the dataset is the list of its labels in index order. The loop
  \<open>for i in range(0, length)\<close> is \<open>select_loop\<close>: its arguments are the labels not yet
  visited, the current index, the mutable copy of \<open>num_sample_per_class\<close> and
  \<open>selected_list\<close>.
\<close>

fun select_loop :: "int list \<Rightarrow> nat \<Rightarrow> int list \<Rightarrow> nat list \<Rightarrow> exn + nat list" where
  "select_loop [] index num_sample_per_class selected_list = Inr selected_list"
| "select_loop (label # rest) index num_sample_per_class selected_list =
     (case py_index (length num_sample_per_class) label of
        None \<Rightarrow> Inl IndexError
      | Some c \<Rightarrow>
          if num_sample_per_class ! c > 0
          then select_loop rest (Suc index)
                 (num_sample_per_class[c := num_sample_per_class ! c - 1])
                 (selected_list @ [index])
          else select_loop rest (Suc index) num_sample_per_class selected_list)"

definition get_imbalanced_data :: "int list \<Rightarrow> int list \<Rightarrow> exn + nat list" where
  "get_imbalanced_data dataset num_sample_per_class =
     select_loop dataset 0 num_sample_per_class []"

text \<open>
  The closed form the loop is compared with: index \<open>j\<close> is kept when fewer samples of its
  class come before it than the class's budget.
\<close>

definition within_budget :: "int list \<Rightarrow> int list \<Rightarrow> nat \<Rightarrow> bool" where
  "within_budget lbls budget j =
     (int (count_list (take j lbls) (lbls ! j)) < budget ! nat (lbls ! j))"

section \<open>The long-tailed dataset builder (m2m\_imbalance\_svhn.py)\<close>

text \<open>
  Python floats are IEEE 754 binary64 numbers, and each float operation returns the exact
  result rounded to the nearest of them, ties to even. \<open>float64_round\<close> is that rounding:
  a number of magnitude in \<open>[2^e, 2^(e+1))\<close> is rounded to a multiple of \<open>2^(e-52)\<close>, and
  below \<open>2^-1022\<close> to a multiple of \<open>2^-1074\<close>. \<open>float64\<close> adds the overflow to an
  infinity, from \<open>2^1024\<close> on.
\<close>

definition round_half_even :: "real \<Rightarrow> int" where
  "round_half_even r =
     (if r - of_int \<lfloor>r\<rfloor> < 1 / 2 then \<lfloor>r\<rfloor>
      else if 1 / 2 < r - of_int \<lfloor>r\<rfloor> then \<lfloor>r\<rfloor> + 1
      else if even \<lfloor>r\<rfloor> then \<lfloor>r\<rfloor> else \<lfloor>r\<rfloor> + 1)"

definition quantum_exp :: "real \<Rightarrow> int" where
  "quantum_exp x = max \<lfloor>log 2 \<bar>x\<bar>\<rfloor> (- 1022) - 52"

definition float64_round :: "real \<Rightarrow> real" where
  "float64_round x =
     (if x = 0 then 0
      else of_int (round_half_even (x / 2 powi quantum_exp x)) * 2 powi quantum_exp x)"

definition float64 :: "real \<Rightarrow> npfloat" where
  "float64 x =
     (if 2 ^ 1024 \<le> \<bar>float64_round x\<bar>
      then (if 0 < float64_round x then PosInf else NegInf)
      else Finite (float64_round x))"

definition float_mul :: "real \<Rightarrow> real \<Rightarrow> npfloat" where
  "float_mul a b = float64 (a * b)"

text \<open>
  \<open>int(x)\<close> on a float truncates toward zero; on an infinity it raises OverflowError and
  on NaN ValueError.
\<close>

fun py_int :: "npfloat \<Rightarrow> exn + int" where
  "py_int (Finite x) = Inr (if 0 \<le> x then \<lfloor>x\<rfloor> else \<lceil>x\<rceil>)"
| "py_int NaN = Inl (ValueError ''cannot convert float NaN to integer'')"
| "py_int x = Inl OverflowError"

definition img_max :: int where
  "img_max = 1000"

text \<open>
  The \<open>'exp'\<close> branch of \<open>get_img_num_per_cls\<close>: the loop over \<open>range(cls_num)\<close>, with
  the class indices still to visit and the list built so far. \<open>cls_idx / (cls_num - 1.0)\<close>
  raises ZeroDivisionError when \<open>cls_num\<close> is 1. The power \<open>imb_factor ** y\<close> is computed by
  the C library; it is the parameter \<open>float_pow\<close>, which returns the float or the exception
  of the power (with the TypeError that \<open>int\<close> raises on a complex result).
\<close>

fun exp_loop ::
  "(real \<Rightarrow> real \<Rightarrow> exn + real) \<Rightarrow> nat \<Rightarrow> real \<Rightarrow> nat list \<Rightarrow> int list \<Rightarrow> exn + int list" where
  "exp_loop float_pow cls_num imb_factor [] img_num_per_cls = Inr img_num_per_cls"
| "exp_loop float_pow cls_num imb_factor (cls_idx # rest) img_num_per_cls =
     (if real cls_num - 1 = 0 then Inl ZeroDivisionError
      else case float_pow imb_factor (float64_round (real cls_idx / (real cls_num - 1))) of
             Inl e \<Rightarrow> Inl e
           | Inr p \<Rightarrow>
               (case py_int (float_mul (real_of_int img_max) p) of
                  Inl e \<Rightarrow> Inl e
                | Inr num \<Rightarrow>
                    exp_loop float_pow cls_num imb_factor rest (img_num_per_cls @ [num])))"

text \<open>
  \<open>get_img_num_per_cls(cls_num, imb_type, imb_factor)\<close>. In the \<open>'step'\<close> branch the second
  loop evaluates \<open>int(img_max * imb_factor)\<close> only when \<open>cls_num // 2\<close> is not zero.
\<close>

definition get_img_num_per_cls ::
  "(real \<Rightarrow> real \<Rightarrow> exn + real) \<Rightarrow> nat \<Rightarrow> string \<Rightarrow> real \<Rightarrow> exn + int list" where
  "get_img_num_per_cls float_pow cls_num imb_type imb_factor =
     (if imb_type = ''exp'' then exp_loop float_pow cls_num imb_factor [0..<cls_num] []
      else if imb_type = ''step'' then
        (if cls_num div 2 = 0 then Inr []
         else case py_int (float_mul (real_of_int img_max) imb_factor) of
                Inl e \<Rightarrow> Inl e
              | Inr num \<Rightarrow>
                  Inr (replicate (cls_num div 2) img_max @ replicate (cls_num div 2) num))
      else Inr (replicate cls_num img_max))"

text \<open>
  The dataset object: the sample array (its rows), the label list and the dictionary of
  per-class counts, which keeps its keys in insertion order.
\<close>

record 'a svhn_lt =
  data :: "'a list"
  labels :: "int list"
  num_per_cls_dict :: "(int \<times> int) list"

definition dict_set :: "(int \<times> int) list \<Rightarrow> int \<Rightarrow> int \<Rightarrow> (int \<times> int) list" where
  "dict_set d k v =
     (if k \<in> fst ` set d then map (\<lambda>(k', v'). if k' = k then (k', v) else (k', v')) d
      else d @ [(k, v)])"

definition dict_values :: "(int \<times> int) list \<Rightarrow> int list" where
  "dict_values d = map snd d"

text \<open>\<open>np.unique\<close>, \<open>np.where(targets_np == the_class)[0]\<close>, the slice \<open>idx[:n]\<close> (a negative
  \<open>n\<close> drops from the end) and the row selection \<open>data[selec_idx, ...]\<close>.\<close>

definition np_unique :: "int list \<Rightarrow> int list" where
  "np_unique xs = sort (remdups xs)"

definition np_where_eq :: "int list \<Rightarrow> int \<Rightarrow> nat list" where
  "np_where_eq targets_np the_class =
     filter (\<lambda>i. targets_np ! i = the_class) [0..<length targets_np]"

definition py_slice_to :: "'b list \<Rightarrow> int \<Rightarrow> 'b list" where
  "py_slice_to xs n = (if 0 \<le> n then take (nat n) xs else take (length xs - nat (- n)) xs)"

definition np_rows :: "'a list \<Rightarrow> nat list \<Rightarrow> exn + 'a list" where
  "np_rows rows selec_idx =
     (if list_all (\<lambda>i. i < length rows) selec_idx then Inr (map ((!) rows) selec_idx)
      else Inl IndexError)"

text \<open>
  The loop of \<open>gen_imbalanced_data\<close> over \<open>zip(classes, img_num_per_cls)\<close>.
  \<open>np.random.shuffle(idx)\<close> is the parameter \<open>shuffle\<close>: \<open>shuffle k\<close> is the permutation
  the generator applies at the \<open>k\<close>-th call.
\<close>

fun gen_loop ::
  "(nat \<Rightarrow> nat list \<Rightarrow> nat list) \<Rightarrow> 'a list \<Rightarrow> int list \<Rightarrow> nat \<Rightarrow> (int \<times> int) list \<Rightarrow>
   (int \<times> int) list \<Rightarrow> 'a list list \<Rightarrow> int list \<Rightarrow>
   exn + ((int \<times> int) list \<times> 'a list list \<times> int list)" where
  "gen_loop shuffle rows targets_np k [] d new_data new_targets =
     Inr (d, new_data, new_targets)"
| "gen_loop shuffle rows targets_np k ((the_class, the_img_num) # rest) d new_data new_targets =
     (let idx = shuffle k (np_where_eq targets_np the_class);
          selec_idx = py_slice_to idx the_img_num
      in case np_rows rows selec_idx of
           Inl e \<Rightarrow> Inl e
         | Inr sel \<Rightarrow>
             gen_loop shuffle rows targets_np (Suc k) rest
               (dict_set d the_class the_img_num)
               (new_data @ [sel])
               (new_targets @ replicate (nat the_img_num) the_class))"

text \<open>
  \<open>gen_imbalanced_data\<close>: \<open>np.vstack\<close> raises ValueError on an empty list of arrays, and
  the final \<open>assert\<close> raises AssertionError.
\<close>

definition gen_imbalanced_data ::
  "(nat \<Rightarrow> nat list \<Rightarrow> nat list) \<Rightarrow> 'a svhn_lt \<Rightarrow> int list \<Rightarrow> exn + 'a svhn_lt" where
  "gen_imbalanced_data shuffle self img_num_per_cls =
     (let classes = np_unique (labels self) in
      case gen_loop shuffle (data self) (labels self) 0 (zip classes img_num_per_cls) [] [] [] of
        Inl e \<Rightarrow> Inl e
      | Inr (d, new_data, new_targets) \<Rightarrow>
          if new_data = [] then Inl (ValueError ''need at least one array to concatenate'')
          else
            let self' = self\<lparr>num_per_cls_dict := d, data := concat new_data,
                                 labels := new_targets\<rparr>
            in if length (data self') = length (labels self') then Inr self'
               else Inl AssertionError)"

section \<open>The reweighting schedule and the criteria (\_erm.py, \_ldam\_drw.py, \_mixup\_drw.py)\<close>

text \<open>
  Entries of numpy float arrays are \<open>npfloat\<close> values: finite values are exact reals
  (rounding is left out), and the values that numpy's division by zero produces instead of
  raising are kept apart. Signed zeros are not distinguished; the only zero divisor here is
  \<open>1.0 - 1\<close>.
\<close>

fun np_add :: "npfloat \<Rightarrow> npfloat \<Rightarrow> npfloat" where
  "np_add (Finite a) (Finite b) = Finite (a + b)"
| "np_add NaN y = NaN"
| "np_add x NaN = NaN"
| "np_add PosInf NegInf = NaN"
| "np_add NegInf PosInf = NaN"
| "np_add PosInf y = PosInf"
| "np_add x PosInf = PosInf"
| "np_add NegInf y = NegInf"
| "np_add x NegInf = NegInf"

fun np_div :: "npfloat \<Rightarrow> npfloat \<Rightarrow> npfloat" where
  "np_div (Finite a) (Finite b) =
     (if b \<noteq> 0 then Finite (a / b)
      else if 0 < a then PosInf else if a < 0 then NegInf else NaN)"
| "np_div NaN y = NaN"
| "np_div x NaN = NaN"
| "np_div (Finite a) y = Finite 0"
| "np_div PosInf (Finite b) = (if 0 \<le> b then PosInf else NegInf)"
| "np_div NegInf (Finite b) = (if 0 \<le> b then NegInf else PosInf)"
| "np_div x y = NaN"

fun np_mul :: "npfloat \<Rightarrow> npfloat \<Rightarrow> npfloat" where
  "np_mul (Finite a) (Finite b) = Finite (a * b)"
| "np_mul NaN y = NaN"
| "np_mul x NaN = NaN"
| "np_mul PosInf (Finite b) = (if 0 < b then PosInf else if b < 0 then NegInf else NaN)"
| "np_mul NegInf (Finite b) = (if 0 < b then NegInf else if b < 0 then PosInf else NaN)"
| "np_mul (Finite a) PosInf = (if 0 < a then PosInf else if a < 0 then NegInf else NaN)"
| "np_mul (Finite a) NegInf = (if 0 < a then NegInf else if a < 0 then PosInf else NaN)"
| "np_mul PosInf PosInf = PosInf"
| "np_mul NegInf NegInf = PosInf"
| "np_mul x y = NegInf"

definition np_sum :: "npfloat list \<Rightarrow> npfloat" where
  "np_sum xs = foldl np_add (Finite 0) xs"

text \<open>
  The per-class weights of \<open>get_criterion\<close>; \<open>LDAMDRWTrainer\<close> and \<open>MixupTrainer\<close> hold the
  same lines. \<open>epochs\<close> is \<open>cfg.epochs\<close>, \<open>epoch\<close> is \<open>self.epoch\<close>; class counts are
  natural numbers. \<open>beta_at\<close> is the expression \<open>betas[idx]\<close>, a Python list indexing.
\<close>

definition betas :: "real list" where
  "betas = [0, 9999 / 10000]"

definition breakpoint :: "int \<Rightarrow> int" where
  "breakpoint epochs = (if epochs = 300 then 250 else 160)"

definition drw_idx :: "int \<Rightarrow> int \<Rightarrow> int" where
  "drw_idx epochs epoch = (if epochs = 300 then epoch div 250 else epoch div 160)"

definition effective_num :: "real \<Rightarrow> nat list \<Rightarrow> npfloat list" where
  "effective_num beta cls_num_list = map (\<lambda>n. Finite (1 - beta ^ n)) cls_num_list"

definition beta_at :: "int \<Rightarrow> int \<Rightarrow> exn + real" where
  "beta_at epochs epoch =
     (case py_index (length betas) (drw_idx epochs epoch) of
        None \<Rightarrow> Inl IndexError
      | Some i \<Rightarrow> Inr (betas ! i))"

definition per_cls_weights :: "int \<Rightarrow> int \<Rightarrow> nat list \<Rightarrow> exn + npfloat list" where
  "per_cls_weights epochs epoch cls_num_list =
     (case beta_at epochs epoch of
        Inl e \<Rightarrow> Inl e
      | Inr beta \<Rightarrow>
          let w = map (np_div (Finite (1 - beta))) (effective_num beta cls_num_list);
              norm = np_sum w
          in Inr (map (\<lambda>x. np_mul (np_div x norm) (Finite (real (length cls_num_list)))) w))"

text \<open>
  The formula of the specification, to compare \<open>per_cls_weights\<close> with:
  \<open>weight[c] = (1 - beta) / (1 - beta ^ cls_num_list[c])\<close>, divided by the sum of these and
  multiplied by the number of classes.
\<close>

definition spec_weights :: "real \<Rightarrow> nat list \<Rightarrow> npfloat list" where
  "spec_weights beta cls_num_list =
     map (\<lambda>n. Finite ((1 - beta) / (1 - beta ^ n)
                       / (\<Sum>m\<leftarrow>cls_num_list. (1 - beta) / (1 - beta ^ m))
                       * real (length cls_num_list))) cls_num_list"

text \<open>
  The criterion objects: \<open>nn.CrossEntropyLoss(weight, reduction='none')\<close> and
  \<open>LDAMLoss(cls_num_list, max_m, s, weight)\<close>, kept as constructor terms. The trainer
  holds the fields the embedded methods read and write; the optimizer is reduced to the
  \<open>lr\<close> of each of its parameter groups. \<open>log_training\<close> and \<open>wandb\<close> collect what is
  written to the text log and to the metrics sink.
\<close>

datatype loss =
    CrossEntropyLoss "npfloat list option"
  | LDAMLoss "nat list" real real "npfloat list"

datatype event =
    LogLine int nat nat real
  | WandbLog int real

record optimizer =
  param_groups :: "real list"

record 'b trainer =
  strategy :: string
  cfg_epochs :: int
  cfg_cls_num_list :: "nat list"
  cfg_print_freq :: int
  epoch :: int
  cls_num_list :: "nat list"
  criterion :: "loss option"
  optimizer :: optimizer
  train_loader :: "'b list"
  emitted :: "event list"

text \<open>
  \<open>get_criterion\<close> of the three trainers. The result pairs the outcome (an exception or
  normal return) with the trainer afterwards.
\<close>

definition not_supported :: exn where
  "not_supported = ValueError ''[Warning] Strategy is not supported !''"

definition ERMTrainer_get_criterion :: "'b trainer \<Rightarrow> (exn + unit) \<times> 'b trainer" where
  "ERMTrainer_get_criterion self =
     (if strategy self = ''ERM''
      then (Inr (), self\<lparr>criterion := Some (CrossEntropyLoss None)\<rparr>)
      else (Inl not_supported, self))"

definition LDAMDRWTrainer_get_criterion :: "'b trainer \<Rightarrow> (exn + unit) \<times> 'b trainer" where
  "LDAMDRWTrainer_get_criterion self =
     (if strategy self = ''LDAM_DRW''
      then case per_cls_weights (cfg_epochs self) (epoch self) (cls_num_list self) of
             Inl e \<Rightarrow> (Inl e, self)
           | Inr w \<Rightarrow>
               (Inr (), self\<lparr>criterion := Some (LDAMLoss (cfg_cls_num_list self) (1 / 2) 30 w)\<rparr>)
      else (Inl not_supported, self))"

definition MixupTrainer_get_criterion :: "'b trainer \<Rightarrow> (exn + unit) \<times> 'b trainer" where
  "MixupTrainer_get_criterion self =
     (if strategy self = ''Mixup_DRW''
      then case per_cls_weights (cfg_epochs self) (epoch self) (cls_num_list self) of
             Inl e \<Rightarrow> (Inl e, self)
           | Inr w \<Rightarrow> (Inr (), self\<lparr>criterion := Some (CrossEntropyLoss (Some w))\<rparr>)
      else (Inl not_supported, self))"

text \<open>
  \<open>train_one_epoch\<close>: the loop over \<open>enumerate(self.train_loader)\<close>. Forward pass, loss and
  accuracy meters are left out; \<open>opt_step\<close> is what \<open>zero_grad\<close>, \<open>backward\<close> and
  \<open>optimizer.step()\<close> do to the optimizer for a batch. \<open>lr_now\<close> is the expression
  \<open>self.optimizer.param_groups[-1]['lr'] * 0.1\<close>. The flag says whether \<open>wandb.log\<close> sits
  inside the periodic report (ERM) or not (LDAM-DRW, Mixup-DRW).
\<close>

definition lr_now :: "optimizer \<Rightarrow> exn + real" where
  "lr_now opt =
     (case py_index (length (param_groups opt)) (- 1) of
        None \<Rightarrow> Inl IndexError
      | Some g \<Rightarrow> Inr (param_groups opt ! g * (1 / 10)))"

fun train_loop ::
  "bool \<Rightarrow> ('b \<Rightarrow> optimizer \<Rightarrow> optimizer) \<Rightarrow> int \<Rightarrow> int \<Rightarrow> nat \<Rightarrow> nat \<Rightarrow> 'b list \<Rightarrow>
   optimizer \<Rightarrow> event list \<Rightarrow> exn + optimizer \<times> event list" where
  "train_loop wandb_in_report opt_step ep print_freq n_batches i [] opt out = Inr (opt, out)"
| "train_loop wandb_in_report opt_step ep print_freq n_batches i (batch # rest) opt out =
     (let opt' = opt_step batch opt in
      if print_freq = 0 then Inl ZeroDivisionError
      else if int i mod print_freq = 0 then
        (case lr_now opt' of
           Inl e \<Rightarrow> Inl e
         | Inr lr \<Rightarrow>
             train_loop wandb_in_report opt_step ep print_freq n_batches (Suc i) rest opt'
               (out @ LogLine ep i n_batches lr # (if wandb_in_report then [WandbLog ep lr] else [])))
      else train_loop wandb_in_report opt_step ep print_freq n_batches (Suc i) rest opt' out)"

definition run_loop ::
  "bool \<Rightarrow> ('b \<Rightarrow> optimizer \<Rightarrow> optimizer) \<Rightarrow> 'b trainer \<Rightarrow> exn + optimizer \<times> event list" where
  "run_loop wandb_in_report opt_step self =
     train_loop wandb_in_report opt_step (epoch self) (cfg_print_freq self)
       (length (train_loader self)) 0 (train_loader self) (optimizer self) (emitted self)"

definition ERMTrainer_train_one_epoch ::
  "('b \<Rightarrow> optimizer \<Rightarrow> optimizer) \<Rightarrow> 'b trainer \<Rightarrow> exn + 'b trainer" where
  "ERMTrainer_train_one_epoch opt_step self =
     (case run_loop True opt_step self of
        Inl e \<Rightarrow> Inl e
      | Inr (opt, out) \<Rightarrow> Inr (self\<lparr>optimizer := opt, emitted := out\<rparr>))"

definition LDAMDRWTrainer_train_one_epoch ::
  "('b \<Rightarrow> optimizer \<Rightarrow> optimizer) \<Rightarrow> 'b trainer \<Rightarrow> exn + 'b trainer" where
  "LDAMDRWTrainer_train_one_epoch opt_step self =
     (case run_loop False opt_step self of
        Inl e \<Rightarrow> Inl e
      | Inr (opt, out) \<Rightarrow> Inr (self\<lparr>optimizer := opt, emitted := out\<rparr>))"

definition MixupTrainer_train_one_epoch ::
  "('b \<Rightarrow> optimizer \<Rightarrow> optimizer) \<Rightarrow> 'b trainer \<Rightarrow> exn + 'b trainer" where
  "MixupTrainer_train_one_epoch opt_step self =
     (case run_loop False opt_step self of
        Inl e \<Rightarrow> Inl e
      | Inr (opt, out) \<Rightarrow>
          (case lr_now opt of
             Inl e \<Rightarrow> Inl e
           | Inr lr \<Rightarrow> Inr (self\<lparr>optimizer := opt, emitted := out @ [WandbLog (epoch self) lr]\<rparr>)))"

text \<open>
  What the periodic reports are compared with. \<open>optimizer_after k\<close> is the optimizer once
  the first \<open>k\<close> batches have been stepped; \<open>report_at\<close> is, for a batch whose index is a
  multiple of \<open>print_freq\<close>, a log line (and a metrics record when \<open>wandb.log\<close> sits in the
  report) carrying one tenth of the \<open>lr\<close> of the last parameter group at that moment;
  \<open>i\<close> is the index of the first batch of \<open>batches\<close>.
\<close>

definition optimizer_after ::
  "('b \<Rightarrow> optimizer \<Rightarrow> optimizer) \<Rightarrow> 'b list \<Rightarrow> optimizer \<Rightarrow> nat \<Rightarrow> optimizer" where
  "optimizer_after opt_step batches opt k = foldl (\<lambda>opt batch. opt_step batch opt) opt (take k batches)"

definition report_at ::
  "bool \<Rightarrow> ('b \<Rightarrow> optimizer \<Rightarrow> optimizer) \<Rightarrow> int \<Rightarrow> int \<Rightarrow> nat \<Rightarrow> nat \<Rightarrow> 'b list \<Rightarrow>
   optimizer \<Rightarrow> nat \<Rightarrow> event list" where
  "report_at wandb_in_report opt_step ep print_freq n_batches i batches opt j =
     (if int (i + j) mod print_freq = 0
      then LogLine ep (i + j) n_batches
             (last (param_groups (optimizer_after opt_step batches opt (Suc j))) * (1 / 10)) #
           (if wandb_in_report
            then [WandbLog ep
                    (last (param_groups (optimizer_after opt_step batches opt (Suc j))) * (1 / 10))]
            else [])
      else [])"

definition reports_from ::
  "bool \<Rightarrow> ('b \<Rightarrow> optimizer \<Rightarrow> optimizer) \<Rightarrow> int \<Rightarrow> int \<Rightarrow> nat \<Rightarrow> nat \<Rightarrow> 'b list \<Rightarrow>
   optimizer \<Rightarrow> event list" where
  "reports_from wandb_in_report opt_step ep print_freq n_batches i batches opt =
     concat (map (report_at wandb_in_report opt_step ep print_freq n_batches i batches opt)
               [0..<length batches])"

definition periodic_reports ::
  "bool \<Rightarrow> ('b \<Rightarrow> optimizer \<Rightarrow> optimizer) \<Rightarrow> 'b trainer \<Rightarrow> event list" where
  "periodic_reports wandb_in_report opt_step self =
     reports_from wandb_in_report opt_step (epoch self) (cfg_print_freq self)
       (length (train_loader self)) 0 (train_loader self) (optimizer self)"

section \<open>Properties of the oversampling index builder\<close>

lemma select_loop_subseq:
  "select_loop ls i b acc = Inr sel \<Longrightarrow>
     \<exists>ys. sel = acc @ ys \<and> subseq ys [i..<i + length ls]"
proof (induction ls arbitrary: i b acc)
  case Nil
  then show ?case by simp
next
  case (Cons l ls)
  have range_unfold: "[i..<i + length (l # ls)] = i # [Suc i..<Suc i + length ls]"
    by (subst upt_conv_Cons) simp_all
  from Cons.prems obtain c where c: "py_index (length b) l = Some c"
    by (auto split: option.splits)
  show ?case
  proof (cases "b ! c > 0")
    case True
    with Cons.prems c
    have "select_loop ls (Suc i) (b[c := b ! c - 1]) (acc @ [i]) = Inr sel" by simp
    from Cons.IH [OF this] obtain ys
      where "sel = (acc @ [i]) @ ys" "subseq ys [Suc i..<Suc i + length ls]" by blast
    then have "sel = acc @ (i # ys) \<and> subseq (i # ys) [i..<i + length (l # ls)]"
      unfolding range_unfold by simp
    then show ?thesis by blast
  next
    case False
    with Cons.prems c have "select_loop ls (Suc i) b acc = Inr sel" by simp
    from Cons.IH [OF this] obtain ys
      where "sel = acc @ ys" "subseq ys [Suc i..<Suc i + length ls]" by blast
    then have "sel = acc @ ys \<and> subseq ys [i..<i + length (l # ls)]"
      unfolding range_unfold by (simp only: list_emb_Cons simp_thms)
    then show ?thesis by blast
  qed
qed

lemma select_loop_error: "select_loop ls i b acc = Inl e \<Longrightarrow> e = IndexError"
  by (induction ls arbitrary: i b acc) (auto split: option.splits if_splits)

lemma subseq_keeps_sorted_wrt: "subseq ys xs \<Longrightarrow> sorted_wrt P xs \<Longrightarrow> sorted_wrt P ys"
  by (induction rule: list_emb.induct) (auto dest: list_emb_set)

lemma within_budget_Cons_0:
  "0 \<le> l \<Longrightarrow> within_budget (l # ls) b 0 = (0 < b ! nat l)"
  by (simp add: within_budget_def)

lemma within_budget_Cons_Suc:
  assumes l: "0 \<le> l" "nat l < length b" and j: "j < length ls" and lj: "0 \<le> ls ! j"
  shows "within_budget (l # ls) b (Suc j) =
           within_budget ls (if 0 < b ! nat l then b[nat l := b ! nat l - 1] else b) j"
proof (cases "ls ! j = l")
  case True
  with l show ?thesis by (auto simp: within_budget_def)
next
  case False
  with l lj have "nat (ls ! j) \<noteq> nat l" by simp
  with False show ?thesis by (simp add: within_budget_def)
qed

lemma select_loop_closed_form:
  "\<forall>l\<in>set ls. 0 \<le> l \<and> l < int (length b) \<Longrightarrow>
     select_loop ls i b acc =
       Inr (acc @ map (\<lambda>j. i + j) (filter (within_budget ls b) [0..<length ls]))"
proof (induction ls arbitrary: i b acc)
  case Nil
  then show ?case by simp
next
  case (Cons l ls)
  let ?b' = "if 0 < b ! nat l then b[nat l := b ! nat l - 1] else b"
  from Cons.prems have l: "0 \<le> l" "nat l < length b" by auto
  then have idx: "py_index (length b) l = Some (nat l)" by (simp add: py_index_def)
  from Cons.prems have rest: "\<forall>l\<in>set ls. 0 \<le> l \<and> l < int (length ?b')" by simp
  have shift: "filter (within_budget (l # ls) b \<circ> Suc) [0..<length ls] =
               filter (within_budget ls ?b') [0..<length ls]"
  proof (rule filter_cong [OF refl])
    fix j assume "j \<in> set [0..<length ls]"
    then have j: "j < length ls" by simp
    with Cons.prems have "0 \<le> ls ! j" by simp
    from within_budget_Cons_Suc [OF l j this]
    show "(within_budget (l # ls) b \<circ> Suc) j = within_budget ls ?b' j" by simp
  qed
  have split: "filter (within_budget (l # ls) b) [0..<length (l # ls)] =
        (if 0 < b ! nat l then [0] else []) @
        map Suc (filter (within_budget ls ?b') [0..<length ls])"
    using within_budget_Cons_0 [OF l(1), of ls b]
    by (simp add: upt_conv_Cons map_Suc_upt [symmetric] filter_map shift del: upt_Suc)
  show ?case
  proof (cases "0 < b ! nat l")
    case True
    with idx Cons.IH [OF rest, of "Suc i" "acc @ [i]"] show ?thesis
      unfolding split by (simp add: comp_def)
  next
    case False
    with idx Cons.IH [OF rest, of "Suc i" acc] show ?thesis
      unfolding split by (simp add: comp_def)
  qed
qed

text \<open>
  Claim C7. \<open>get_imbalanced_data\<close> keeps a dataset index exactly while the class of that
  sample still has budget left: index \<open>j\<close> is returned when fewer than
  \<open>num_sample_per_class[label j]\<close> samples of the same class come before it (each of those
  was kept and took one unit of the budget), and the kept indices come out in dataset
  order. For the lbls \<open>[0, 0, 1, 0]\<close> and the target counts \<open>[2, 1]\<close> the result is
  \<open>[0, 1, 2]\<close>.
\<close>

theorem get_imbalanced_data_budget:
  "((\<forall>l\<in>set lbls. 0 \<le> l \<and> l < int (length budget)) \<longrightarrow>
      get_imbalanced_data lbls budget =
        Inr (filter (within_budget lbls budget) [0..<length lbls])) \<and>
   get_imbalanced_data [0, 0, 1, 0] [2, 1] = Inr [0, 1, 2]"
proof
  show "(\<forall>l\<in>set lbls. 0 \<le> l \<and> l < int (length budget)) \<longrightarrow>
      get_imbalanced_data lbls budget =
        Inr (filter (within_budget lbls budget) [0..<length lbls])"
    using select_loop_closed_form [of lbls budget 0 "[]"]
    by (simp add: get_imbalanced_data_def)
  show "get_imbalanced_data [0, 0, 1, 0] [2, 1] = Inr [0, 1, 2]"
    by (simp add: get_imbalanced_data_def py_index_def)
qed

theorem get_imbalanced_data_budget_witness:
  "get_imbalanced_data [1, 0, 1, 1] [3, 2] =
     Inr (filter (within_budget [1, 0, 1, 1] [3, 2]) [0..<length [1, 0, 1, 1 :: int]]) \<and>
   filter (within_budget [1, 0, 1, 1] [3, 2]) [0..<length [1, 0, 1, 1 :: int]] = [0, 1, 2]"
  using get_imbalanced_data_budget [of "[1, 0, 1, 1]" "[3, 2]"]
  by (simp add: within_budget_def upt_conv_Cons)

text \<open>
  Claim C10. The loop of \<open>get_imbalanced_data\<close> passes over the dataset once: whatever it
  returns is a subsequence of \<open>0 .. len(dataset) - 1\<close>, strictly increasing, without
  repetition and no longer than the dataset, for every dataset and every list of target
  counts. The only other outcome is the IndexError of \<open>num_sample_per_class[label]\<close>.
\<close>

theorem get_imbalanced_data_single_pass:
  "(case get_imbalanced_data lbls budget of
      Inl e \<Rightarrow> e = IndexError
    | Inr sel \<Rightarrow> subseq sel [0..<length lbls] \<and> sorted_wrt (<) sel \<and>
                 distinct sel \<and> length sel \<le> length lbls)"
proof (cases "get_imbalanced_data lbls budget")
  case (Inl e)
  then show ?thesis
    using select_loop_error [of lbls 0 budget "[]" e]
    by (simp add: get_imbalanced_data_def)
next
  case (Inr sel)
  then have sub: "subseq sel [0..<length lbls]"
    using select_loop_subseq [of lbls 0 budget "[]" sel]
    by (auto simp: get_imbalanced_data_def)
  then have inc: "sorted_wrt (<) sel"
    by (rule subseq_keeps_sorted_wrt) simp
  then have "distinct sel"
    by (simp add: strict_sorted_iff)
  moreover from sub have "length sel \<le> length lbls"
    using list_emb_length by fastforce
  ultimately show ?thesis using Inr sub inc by simp
qed

section \<open>Properties of the imbalanced dataset construction\<close>

lemma length_np_where_eq: "length (np_where_eq ls c) = count_list ls c"
proof (induction ls rule: rev_induct)
  case Nil
  show ?case by (simp add: np_where_eq_def)
next
  case (snoc x xs)
  have "filter (\<lambda>i. (xs @ [x]) ! i = c) [0..<length xs] =
        filter (\<lambda>i. xs ! i = c) [0..<length xs]"
    by (rule filter_cong) (simp_all add: nth_append)
  with snoc show ?case by (simp add: np_where_eq_def)
qed

lemma np_where_eq_bound: "i \<in> set (np_where_eq ls c) \<Longrightarrow> i < length ls"
  by (simp add: np_where_eq_def)

lemma dict_set_fresh: "k \<notin> fst ` set d \<Longrightarrow> dict_set d k v = d @ [(k, v)]"
  by (simp add: dict_set_def)

lemma gen_loop_invariant:
  assumes perm: "\<forall>k xs. mset (shuffle k xs) = mset xs"
    and len: "length rows = length targets"
  shows "\<forall>(c, m)\<in>set zs. 0 \<le> m \<and> m \<le> int (count_list targets c) \<Longrightarrow>
         distinct (map fst zs) \<Longrightarrow> fst ` set zs \<inter> fst ` set d = {} \<Longrightarrow>
         \<exists>d' nd' nt'. gen_loop shuffle rows targets k zs d nd nt = Inr (d', nd', nt') \<and>
           sum_list (map snd d') = sum_list (map snd d) + sum_list (map snd zs) \<and>
           int (length nt') = int (length nt) + sum_list (map snd zs) \<and>
           int (length (concat nd')) = int (length (concat nd)) + sum_list (map snd zs) \<and>
           length nd' = length nd + length zs"
proof (induction zs arbitrary: k d nd nt)
  case Nil
  show ?case by simp
next
  case (Cons z zs)
  obtain c m where z: "z = (c, m)" by (cases z)
  let ?idx = "shuffle k (np_where_eq targets c)"
  let ?sel = "py_slice_to ?idx m"
  from Cons.prems(1) z have m: "0 \<le> m" "m \<le> int (count_list targets c)" by simp_all
  have idx_len: "length ?idx = count_list targets c"
    using perm mset_eq_length length_np_where_eq by metis
  have idx_set: "set ?idx = set (np_where_eq targets c)"
    using perm mset_eq_setD by blast
  from m have sel: "?sel = take (nat m) ?idx" by (simp add: py_slice_to_def)
  from m idx_len have sel_len: "int (length ?sel) = m" unfolding sel by simp
  have "set ?sel \<subseteq> set ?idx" unfolding sel by (rule set_take_subset)
  with idx_set len have "list_all (\<lambda>i. i < length rows) ?sel"
    by (auto simp: list_all_iff dest: np_where_eq_bound)
  then have rows: "np_rows rows ?sel = Inr (map ((!) rows) ?sel)"
    by (simp add: np_rows_def)
  from Cons.prems(3) z have fresh: "c \<notin> fst ` set d" by auto
  let ?d = "d @ [(c, m)]"
  let ?nd = "nd @ [map ((!) rows) ?sel]"
  let ?nt = "nt @ replicate (nat m) c"
  have step: "gen_loop shuffle rows targets k (z # zs) d nd nt =
              gen_loop shuffle rows targets (Suc k) zs ?d ?nd ?nt"
    unfolding z by (simp add: rows dict_set_fresh [OF fresh] Let_def)
  from Cons.prems(1) have p1: "\<forall>(c, m)\<in>set zs. 0 \<le> m \<and> m \<le> int (count_list targets c)"
    by simp
  from Cons.prems(2) have p2: "distinct (map fst zs)" by simp
  from Cons.prems(2,3) z have p3: "fst ` set zs \<inter> fst ` set ?d = {}" by auto
  from Cons.IH [OF p1 p2 p3, of "Suc k" ?nd ?nt]
  obtain d' nd' nt' where
    r: "gen_loop shuffle rows targets (Suc k) zs ?d ?nd ?nt = Inr (d', nd', nt')"
    and s1: "sum_list (map snd d') = sum_list (map snd ?d) + sum_list (map snd zs)"
    and s2: "int (length nt') = int (length ?nt) + sum_list (map snd zs)"
    and s3: "int (length (concat nd')) = int (length (concat ?nd)) + sum_list (map snd zs)"
    and s4: "length nd' = length ?nd + length zs"
    by blast
  from s1 z have t1: "sum_list (map snd d') = sum_list (map snd d) + sum_list (map snd (z # zs))"
    by simp
  from s2 m z have t2: "int (length nt') = int (length nt) + sum_list (map snd (z # zs))"
    by simp
  from s3 sel_len z
  have t3: "int (length (concat nd')) = int (length (concat nd)) + sum_list (map snd (z # zs))"
    by simp
  from s4 have t4: "length nd' = length nd + length (z # zs)" by simp
  from r t1 t2 t3 t4 show ?case unfolding step by blast
qed

lemma np_unique_distinct: "distinct (np_unique xs)"
  by (simp add: np_unique_def)

lemma np_unique_nonempty: "xs \<noteq> [] \<Longrightarrow> np_unique xs \<noteq> []"
  by (cases xs) (auto simp: np_unique_def dest: arg_cong [where f = set])

lemma gen_loop_counts:
  "\<forall>(c, m)\<in>set zs. 0 \<le> m \<Longrightarrow>
   distinct (map fst zs) \<Longrightarrow> fst ` set zs \<inter> fst ` set d = {} \<Longrightarrow>
   gen_loop shuffle rows targets k zs d nd nt = Inr (d', nd', nt') \<Longrightarrow>
   sum_list (map snd d') = sum_list (map snd d) + sum_list (map snd zs) \<and>
   int (length nt') = int (length nt) + sum_list (map snd zs)"
proof (induction zs arbitrary: k d nd nt)
  case Nil
  then show ?case by simp
next
  case (Cons z zs)
  obtain c m where z: "z = (c, m)" by (cases z)
  let ?sel = "py_slice_to (shuffle k (np_where_eq targets c)) m"
  from Cons.prems(1) z have m: "0 \<le> m" by simp
  from Cons.prems(3) z have fresh: "c \<notin> fst ` set d" by auto
  let ?d = "d @ [(c, m)]"
  let ?nt = "nt @ replicate (nat m) c"
  from Cons.prems(4) obtain sel where rows: "np_rows rows ?sel = Inr sel"
    unfolding z by (cases "np_rows rows ?sel") (simp_all add: Let_def)
  let ?nd = "nd @ [sel]"
  from Cons.prems(4)
  have r: "gen_loop shuffle rows targets (Suc k) zs ?d ?nd ?nt = Inr (d', nd', nt')"
    unfolding z by (simp add: rows dict_set_fresh [OF fresh] Let_def)
  from Cons.prems(1) have p1: "\<forall>(c, m)\<in>set zs. 0 \<le> m" by simp
  from Cons.prems(2) have p2: "distinct (map fst zs)" by simp
  from Cons.prems(2,3) z have p3: "fst ` set zs \<inter> fst ` set ?d = {}" by auto
  from Cons.IH [OF p1 p2 p3 r]
  have s1: "sum_list (map snd d') = sum_list (map snd ?d) + sum_list (map snd zs)"
    and s2: "int (length nt') = int (length ?nt) + sum_list (map snd zs)"
    by simp_all
  from s1 z have t1: "sum_list (map snd d') = sum_list (map snd d) + sum_list (map snd (z # zs))"
    by simp
  from s2 m z have t2: "int (length nt') = int (length nt) + sum_list (map snd (z # zs))"
    by simp
  from t1 t2 show ?case by simp
qed

text \<open>
  A count below zero is outside what the builder is given: \<open>idx[:-1]\<close> and
  \<open>[the_class] * -1\<close> would select no row and no label, while the dictionary would hold \<open>-1\<close>.
  The counts are therefore taken non-negative below, as \<open>get_img_num_per_cls\<close> produces them.
\<close>

lemma gen_imbalanced_data_negative_count:
  "gen_imbalanced_data (\<lambda>k xs. xs) \<lparr>data = [7 :: nat], labels = [0], num_per_cls_dict = []\<rparr> [- 1]
     = Inr \<lparr>data = [], labels = [], num_per_cls_dict = [(0, - 1)]\<rparr>"
  by (simp add: gen_imbalanced_data_def np_unique_def np_where_eq_def py_slice_to_def
      np_rows_def dict_set_def)

text \<open>
  Claim C8. When every target count paired with a class is non-negative and does not exceed
  the number of samples of that class, then after \<open>gen_imbalanced_data\<close> the invariant
  \<open>sum(num_per_cls_dict.values()) == len(labels) == data.shape[0]\<close> holds, whatever
  \<open>np.random.shuffle\<close> does. The target counts are an argument, so this covers the counts of
  every \<open>imb_type\<close>. The construction does complete when, in addition, the shuffles are
  permutations, the data array and the label list agree in length, and there is at least one
  class and one count.
\<close>

theorem gen_imbalanced_data_counts_agree:
  assumes avail: "\<forall>(c, m)\<in>set (zip (np_unique (labels self)) img_num_per_cls).
                    0 \<le> m \<and> m \<le> int (count_list (labels self) c)"
  shows "(\<forall>self'. gen_imbalanced_data shuffle self img_num_per_cls = Inr self' \<longrightarrow>
            sum_list (dict_values (num_per_cls_dict self')) = int (length (labels self')) \<and>
            length (labels self') = length (data self')) \<and>
         ((\<forall>k xs. mset (shuffle k xs) = mset xs) \<and> length (data self) = length (labels self) \<and>
          labels self \<noteq> [] \<and> img_num_per_cls \<noteq> [] \<longrightarrow>
            (\<exists>self'. gen_imbalanced_data shuffle self img_num_per_cls = Inr self'))"
proof (rule conjI [OF allI [OF impI] impI])
  fix self'
  assume ret: "gen_imbalanced_data shuffle self img_num_per_cls = Inr self'"
  let ?zs = "zip (np_unique (labels self)) img_num_per_cls"
  have dist: "distinct (map fst ?zs)"
    by (simp add: map_fst_zip_take np_unique_distinct)
  have disj: "fst ` set ?zs \<inter> fst ` set ([] :: (int \<times> int) list) = {}" by simp
  from avail have nonneg: "\<forall>(c, m)\<in>set ?zs. 0 \<le> m" by auto
  from ret obtain d' nd' nt' where
    r: "gen_loop shuffle (data self) (labels self) 0 ?zs [] [] [] = Inr (d', nd', nt')"
    by (cases "gen_loop shuffle (data self) (labels self) 0 ?zs [] [] []")
       (auto simp: gen_imbalanced_data_def Let_def)
  from ret r have eq: "length (concat nd') = length nt'"
    and self': "self' = self\<lparr>num_per_cls_dict := d', data := concat nd', labels := nt'\<rparr>"
    by (auto simp: gen_imbalanced_data_def Let_def split: if_splits)
  from gen_loop_counts [OF nonneg dist disj r]
  have "sum_list (map snd d') = int (length nt')" by simp
  with eq self'
  show "sum_list (dict_values (num_per_cls_dict self')) = int (length (labels self')) \<and>
        length (labels self') = length (data self')"
    by (simp add: dict_values_def)
next
  assume h: "(\<forall>k xs. mset (shuffle k xs) = mset xs) \<and> length (data self) = length (labels self) \<and>
             labels self \<noteq> [] \<and> img_num_per_cls \<noteq> []"
  then have perm: "\<forall>k xs. mset (shuffle k xs) = mset xs"
    and len: "length (data self) = length (labels self)"
    and nonempty: "labels self \<noteq> []" "img_num_per_cls \<noteq> []"
    by simp_all
  let ?zs = "zip (np_unique (labels self)) img_num_per_cls"
  have dist: "distinct (map fst ?zs)"
    by (simp add: map_fst_zip_take np_unique_distinct)
  have disj: "fst ` set ?zs \<inter> fst ` set ([] :: (int \<times> int) list) = {}" by simp
  from gen_loop_invariant [OF perm len avail dist disj, where k = 0 and nd = "[]" and nt = "[]"]
  obtain d' nd' nt' where
    r: "gen_loop shuffle (data self) (labels self) 0 ?zs [] [] [] = Inr (d', nd', nt')"
    and s2: "int (length nt') = sum_list (map snd ?zs)"
    and s3: "int (length (concat nd')) = sum_list (map snd ?zs)"
    and s4: "length nd' = length ?zs"
    by auto
  from nonempty np_unique_nonempty [of "labels self"] have "0 < length ?zs" by simp
  then have "0 < length nd'" by (simp only: s4)
  then have ne: "nd' \<noteq> []" by simp
  from s2 s3 have eq: "length (concat nd') = length nt'" by simp
  from r ne eq
  show "\<exists>self'. gen_imbalanced_data shuffle self img_num_per_cls = Inr self'"
    by (simp add: gen_imbalanced_data_def Let_def)
qed

theorem gen_imbalanced_data_counts_agree_witness:
  "\<exists>self'. gen_imbalanced_data (\<lambda>k. rev)
              \<lparr>data = [10, 11, 12, 13 :: nat], labels = [0, 1, 0, 1], num_per_cls_dict = []\<rparr>
              [2, 1] = Inr self' \<and>
           sum_list (dict_values (num_per_cls_dict self')) = int (length (labels self')) \<and>
           length (labels self') = length (data self')"
proof -
  let ?self = "\<lparr>data = [10, 11, 12, 13 :: nat], labels = [0, 1, 0, 1], num_per_cls_dict = []\<rparr>"
  have u: "np_unique [0, 1, 0, 1] = [0, 1]" by (simp add: np_unique_def)
  have avail: "\<forall>(c, m)\<in>set (zip (np_unique (labels ?self)) [2, 1]).
                 0 \<le> m \<and> m \<le> int (count_list (labels ?self) c)"
    by (simp add: u)
  have perm: "\<forall>(k :: nat) xs :: nat list. mset ((\<lambda>k. rev) k xs) = mset xs" by simp
  from gen_imbalanced_data_counts_agree [OF avail, where shuffle = "\<lambda>k. rev"] perm
  have inv: "\<forall>self'. gen_imbalanced_data (\<lambda>k. rev) ?self [2, 1] = Inr self' \<longrightarrow>
               sum_list (dict_values (num_per_cls_dict self')) = int (length (labels self')) \<and>
               length (labels self') = length (data self')"
    and ex: "\<exists>self'. gen_imbalanced_data (\<lambda>k. rev) ?self [2, 1] = Inr self'"
    by simp_all
  from ex obtain self' where "gen_imbalanced_data (\<lambda>k. rev) ?self [2, 1] = Inr self'" ..
  with inv show ?thesis by blast
qed

section \<open>Properties of the reweighting schedule\<close>

lemma drw_idx_range:
  "(drw_idx epochs ep = 0 \<or> drw_idx epochs ep = 1) =
     (0 \<le> ep \<and> ep < 2 * breakpoint epochs)"
  unfolding drw_idx_def breakpoint_def by (cases "epochs = 300") auto

lemma drw_idx_ge_two:
  assumes "2 * breakpoint epochs \<le> ep"
  shows "2 \<le> drw_idx epochs ep"
proof (cases "epochs = 300")
  case True
  with assms have "500 \<le> ep" by (simp add: breakpoint_def)
  then have "2 \<le> ep div 250" by presburger
  with True show ?thesis by (simp add: drw_idx_def)
next
  case False
  with assms have "320 \<le> ep" by (simp add: breakpoint_def)
  then have "2 \<le> ep div 160" by presburger
  with False show ?thesis by (simp add: drw_idx_def)
qed

lemma per_cls_weights_out_of_range:
  assumes "2 * breakpoint epochs \<le> ep"
  shows "per_cls_weights epochs ep cls = Inl IndexError"
proof -
  from drw_idx_ge_two [OF assms] have "py_index (length betas) (drw_idx epochs ep) = None"
    by (simp add: py_index_def betas_def)
  then show ?thesis by (simp add: per_cls_weights_def beta_at_def)
qed

lemma per_cls_weights_in_range:
  assumes "0 \<le> ep" "ep < 2 * breakpoint epochs"
  shows "\<exists>w. per_cls_weights epochs ep cls = Inr w"
proof -
  from assms drw_idx_range [of epochs ep]
  have "drw_idx epochs ep = 0 \<or> drw_idx epochs ep = 1" by simp
  then have "\<exists>i. py_index (length betas) (drw_idx epochs ep) = Some i"
    by (auto simp: py_index_def betas_def)
  then show ?thesis by (auto simp: per_cls_weights_def beta_at_def Let_def)
qed

text \<open>
  Claim C2 (as stated, refuted). With \<open>cfg.epochs = 400\<close> the breakpoint is 160; at epoch
  320 the index is \<open>320 // 160 = 2\<close> and \<open>betas[2]\<close> raises IndexError in \<open>get_criterion\<close>.
\<close>

theorem get_criterion_idx_unclamped_counterexample:
  "drw_idx 400 320 = 2 \<and>
   fst (LDAMDRWTrainer_get_criterion
     \<lparr>strategy = ''LDAM_DRW'', cfg_epochs = 400, cfg_cls_num_list = [5, 5],
      cfg_print_freq = 1, epoch = 320, cls_num_list = [5, 5], criterion = None,
      optimizer = \<lparr>param_groups = [1 / 10]\<rparr>, train_loader = ([] :: unit list),
      emitted = []\<rparr>) = Inl IndexError"
  by (simp add: LDAMDRWTrainer_get_criterion_def per_cls_weights_def beta_at_def
      py_index_def betas_def drw_idx_def)

text \<open>
  Claim C2 (amended). The index \<open>idx = epoch // breakpoint\<close> (breakpoint 250 when
  \<open>cfg.epochs\<close> is 300, else 160) is not clamped. It is 0 or 1 exactly when
  \<open>0 \<le> epoch < 2 * breakpoint\<close>, and then \<open>betas[idx]\<close> is read within bounds and the
  weights are computed; for \<open>epoch \<ge> 2 * breakpoint\<close> the lookup raises IndexError.
\<close>

theorem get_criterion_idx_range:
  "((drw_idx epochs ep = 0 \<or> drw_idx epochs ep = 1) = (0 \<le> ep \<and> ep < 2 * breakpoint epochs)) \<and>
   (0 \<le> ep \<and> ep < 2 * breakpoint epochs \<longrightarrow> (\<exists>w. per_cls_weights epochs ep cls = Inr w)) \<and>
   (2 * breakpoint epochs \<le> ep \<longrightarrow> per_cls_weights epochs ep cls = Inl IndexError)"
  using drw_idx_range [of epochs ep] per_cls_weights_in_range [of ep epochs cls]
    per_cls_weights_out_of_range [of epochs ep cls]
  by blast

theorem get_criterion_idx_range_witness:
  "drw_idx 300 499 = 1 \<and> (\<exists>w. per_cls_weights 300 499 [3, 7] = Inr w) \<and>
   per_cls_weights 300 500 [3, 7] = Inl IndexError"
  using get_criterion_idx_range [of 300 499 "[3, 7]"] get_criterion_idx_range [of 300 500 "[3, 7]"]
  by (simp add: breakpoint_def drw_idx_def)

section \<open>Properties of criterion construction\<close>

text \<open>
  Claim C4. In each of the three trainers, \<open>get_criterion\<close> called with a strategy name
  other than the trainer's own raises at once the error the code has for an unsupported
  strategy (a ValueError with the message \<open>[Warning] Strategy is not supported !\<close>); no
  criterion is built and the trainer, its \<open>criterion\<close> field included, is left as it was.
\<close>

theorem get_criterion_rejects_other_strategy:
  "(strategy self \<noteq> ''ERM'' \<longrightarrow>
      ERMTrainer_get_criterion self =
        (Inl (ValueError ''[Warning] Strategy is not supported !''), self)) \<and>
   (strategy self \<noteq> ''LDAM_DRW'' \<longrightarrow>
      LDAMDRWTrainer_get_criterion self =
        (Inl (ValueError ''[Warning] Strategy is not supported !''), self)) \<and>
   (strategy self \<noteq> ''Mixup_DRW'' \<longrightarrow>
      MixupTrainer_get_criterion self =
        (Inl (ValueError ''[Warning] Strategy is not supported !''), self))"
  by (simp add: ERMTrainer_get_criterion_def LDAMDRWTrainer_get_criterion_def
      MixupTrainer_get_criterion_def not_supported_def)

theorem get_criterion_rejects_other_strategy_witness:
  "criterion (snd (ERMTrainer_get_criterion
     \<lparr>strategy = ''LDAM_DRW'', cfg_epochs = 200, cfg_cls_num_list = [5, 5],
      cfg_print_freq = 1, epoch = 0, cls_num_list = [5, 5], criterion = None,
      optimizer = \<lparr>param_groups = [1 / 10]\<rparr>, train_loader = ([] :: unit list),
      emitted = []\<rparr>)) = None \<and>
   fst (MixupTrainer_get_criterion
     \<lparr>strategy = ''LDAM_DRW'', cfg_epochs = 200, cfg_cls_num_list = [5, 5],
      cfg_print_freq = 1, epoch = 0, cls_num_list = [5, 5], criterion = None,
      optimizer = \<lparr>param_groups = [1 / 10]\<rparr>, train_loader = ([] :: unit list),
      emitted = []\<rparr>) = Inl (ValueError ''[Warning] Strategy is not supported !'')"
  using get_criterion_rejects_other_strategy
    [of "\<lparr>strategy = ''LDAM_DRW'', cfg_epochs = 200, cfg_cls_num_list = [5, 5],
      cfg_print_freq = 1, epoch = 0, cls_num_list = [5, 5], criterion = None,
      optimizer = \<lparr>param_groups = [1 / 10]\<rparr>, train_loader = ([] :: unit list),
      emitted = []\<rparr>"]
  by simp

section \<open>Properties of the per-class weights\<close>

lemma foldl_np_add_Finite:
  "foldl np_add (Finite a) (map Finite xs) = Finite (a + sum_list xs)"
  by (induction xs arbitrary: a) (simp_all add: add.assoc)

lemma np_sum_Finite: "np_sum (map Finite xs) = Finite (sum_list xs)"
  by (simp add: np_sum_def foldl_np_add_Finite)

lemma beta_at_cases:
  assumes "beta_at epochs ep = Inr b"
  shows "b = 0 \<or> b = 9999 / 10000"
proof -
  from assms obtain i where "py_index (length betas) (drw_idx epochs ep) = Some i"
    and b: "b = betas ! i"
    by (auto simp: beta_at_def split: option.splits)
  then have "i < 2" by (auto simp: py_index_def betas_def split: if_splits)
  then have "i = 0 \<or> i = 1" by auto
  with b show ?thesis by (auto simp: betas_def)
qed

lemma beta_at_first_stage:
  assumes "0 \<le> ep" "ep < breakpoint epochs"
  shows "beta_at epochs ep = Inr 0"
proof -
  from assms have "drw_idx epochs ep = 0"
    by (cases "epochs = 300") (simp_all add: drw_idx_def breakpoint_def)
  then show ?thesis by (simp add: beta_at_def py_index_def betas_def)
qed

lemma beta_at_second_stage:
  assumes "breakpoint epochs \<le> ep" "ep < 2 * breakpoint epochs"
  shows "beta_at epochs ep = Inr (9999 / 10000)"
proof -
  have "drw_idx epochs ep = 1"
  proof (cases "epochs = 300")
    case True
    with assms have "250 \<le> ep" "ep < 500" by (simp_all add: breakpoint_def)
    then have "ep div 250 = 1" by presburger
    with True show ?thesis by (simp add: drw_idx_def)
  next
    case False
    with assms have "160 \<le> ep" "ep < 320" by (simp_all add: breakpoint_def)
    then have "ep div 160 = 1" by presburger
    with False show ?thesis by (simp add: drw_idx_def)
  qed
  then show ?thesis by (simp add: beta_at_def py_index_def betas_def)
qed

lemma effective_positive:
  fixes b :: real
  assumes b: "0 \<le> b" "b < 1" and n: "1 \<le> n"
  shows "0 < 1 - b ^ n"
proof -
  from b n have "b ^ n \<le> b ^ 1" by (intro power_decreasing) simp_all
  with b have "b ^ n < 1" by simp
  then show ?thesis by simp
qed

lemma raw_weights_Finite:
  assumes b: "0 \<le> b" "b < 1" and cls: "\<forall>n\<in>set cls. 1 \<le> n"
  shows "map (np_div (Finite (1 - b))) (effective_num b cls) =
           map Finite (map (\<lambda>n. (1 - b) / (1 - b ^ n)) cls)"
proof -
  have "np_div (Finite (1 - b)) (Finite (1 - b ^ n)) = Finite ((1 - b) / (1 - b ^ n))"
    if "n \<in> set cls" for n
    using effective_positive [OF b, of n] cls that by simp
  then show ?thesis by (simp add: effective_num_def)
qed

lemma raw_sum_positive:
  fixes b :: real
  assumes b: "0 \<le> b" "b < 1" and cls: "\<forall>n\<in>set cls. 1 \<le> n" and ne: "cls \<noteq> []"
  shows "0 < (\<Sum>n\<leftarrow>cls. (1 - b) / (1 - b ^ n))"
proof -
  have pos: "0 < (1 - b) / (1 - b ^ n)" if "n \<in> set cls" for n
  proof -
    from b have "0 < 1 - b" by simp
    moreover from cls that have "0 < 1 - b ^ n" by (intro effective_positive [OF b]) simp
    ultimately show ?thesis by (rule divide_pos_pos)
  qed
  from ne obtain x xs where c: "cls = x # xs" by (cases cls) auto
  have "0 \<le> (\<Sum>n\<leftarrow>xs. (1 - b) / (1 - b ^ n))"
    by (rule sum_list_nonneg) (use pos c in \<open>auto intro: less_imp_le\<close>)
  moreover have "0 < (1 - b) / (1 - b ^ x)" using pos c by simp
  ultimately show ?thesis unfolding c by simp
qed

lemma per_cls_weights_spec:
  assumes sel: "beta_at epochs ep = Inr b" and cls: "\<forall>n\<in>set cls. 1 \<le> n"
  shows "per_cls_weights epochs ep cls = Inr (spec_weights b cls)"
proof -
  from beta_at_cases [OF sel] have b: "0 \<le> b" "b < 1" by auto
  let ?r = "\<lambda>n. (1 - b) / (1 - b ^ n)"
  let ?S = "\<Sum>n\<leftarrow>cls. ?r n"
  have raw: "map (np_div (Finite (1 - b))) (effective_num b cls) = map Finite (map ?r cls)"
    by (rule raw_weights_Finite [OF b cls])
  have total: "np_sum (map Finite (map ?r cls)) = Finite ?S"
    by (rule np_sum_Finite)
  have fin: "map (\<lambda>x. np_mul (np_div x (Finite ?S)) (Finite (real (length cls))))
          (map Finite (map ?r cls)) = spec_weights b cls"
  proof (cases "cls = []")
    case True
    then show ?thesis by (simp add: spec_weights_def)
  next
    case False
    from raw_sum_positive [OF b cls False] have "?S \<noteq> 0" by simp
    then show ?thesis by (simp add: spec_weights_def comp_def)
  qed
  show ?thesis
    by (simp only: per_cls_weights_def sel sum.simps Let_def raw total fin)
qed

lemma spec_weights_sum:
  assumes b: "0 \<le> b" "b < 1" and cls: "\<forall>n\<in>set cls. 1 \<le> n"
  shows "np_sum (spec_weights b cls) = Finite (real (length cls))"
proof (cases "cls = []")
  case True
  then show ?thesis by (simp add: spec_weights_def np_sum_def)
next
  case False
  let ?r = "\<lambda>n. (1 - b) / (1 - b ^ n)"
  let ?S = "\<Sum>n\<leftarrow>cls. ?r n"
  let ?N = "real (length cls)"
  from raw_sum_positive [OF b cls False] have S: "?S \<noteq> 0" by simp
  have "spec_weights b cls = map Finite (map (\<lambda>n. ?r n * (?N / ?S)) cls)"
    by (simp add: spec_weights_def comp_def)
  then have "np_sum (spec_weights b cls) = Finite (\<Sum>n\<leftarrow>cls. ?r n * (?N / ?S))"
    by (simp only: np_sum_Finite)
  also have "(\<Sum>n\<leftarrow>cls. ?r n * (?N / ?S)) = ?S * (?N / ?S)"
    by (rule sum_list_mult_const)
  also from S have "?S * (?N / ?S) = ?N" by simp
  finally show ?thesis .
qed

lemma spec_weights_uniform:
  assumes cls: "\<forall>n\<in>set cls. 1 \<le> n"
  shows "spec_weights 0 cls = replicate (length cls) (Finite 1)"
proof -
  have one: "(1 - 0) / (1 - (0 :: real) ^ n) = 1" if "n \<in> set cls" for n
    using cls that by (cases n) auto
  then have "map (\<lambda>n. (1 - 0) / (1 - (0 :: real) ^ n)) cls = map (\<lambda>n. 1) cls"
    by (intro map_cong refl)
  then have "(\<Sum>n\<leftarrow>cls. (1 - 0) / (1 - (0 :: real) ^ n)) = (\<Sum>n\<leftarrow>cls. 1)"
    by (simp only:)
  also have "\<dots> = real (length cls)" by (simp add: sum_list_triv)
  finally have S: "(\<Sum>n\<leftarrow>cls. (1 - 0) / (1 - (0 :: real) ^ n)) = real (length cls)" .
  have "Finite ((1 - 0) / (1 - 0 ^ n) / real (length cls) * real (length cls)) = Finite 1"
    if "n \<in> set cls" for n
  proof -
    from that have "cls \<noteq> []" by auto
    then have "real (length cls) \<noteq> 0" by simp
    with one [OF that] show ?thesis by simp
  qed
  then have "map (\<lambda>n. Finite ((1 - 0) / (1 - 0 ^ n) / real (length cls) * real (length cls))) cls =
             map (\<lambda>n. Finite 1) cls"
    by (intro map_cong refl)
  then show ?thesis
    unfolding spec_weights_def S by (simp add: map_replicate_const)
qed

lemma beta_at_out_of_range:
  assumes "2 * breakpoint epochs \<le> ep"
  shows "beta_at epochs ep = Inl IndexError"
proof -
  from drw_idx_ge_two [OF assms] have "py_index (length betas) (drw_idx epochs ep) = None"
    by (simp add: py_index_def betas_def)
  then show ?thesis by (simp add: beta_at_def)
qed

text \<open>
  Claim C1. Whenever the schedule selects a \<open>beta\<close> (the lookup \<open>betas[idx]\<close> succeeds) and
  every class count is at least 1, the weights that \<open>get_criterion\<close> computes, in
  \<open>LDAMDRWTrainer\<close> and in \<open>MixupTrainer\<close>, are those of the effective-number formula:
  \<open>(1 - beta) / (1 - beta ^ cls_num_list[c])\<close>, divided by their sum and multiplied by the
  number of classes. They sum to the number of classes; \<open>beta\<close> is 0 below the breakpoint
  and 0.9999 from the breakpoint on; when \<open>beta\<close> is 0 every weight is 1.
\<close>

theorem get_criterion_effective_number_weights:
  "(\<forall>n\<in>set (cls_num_list self). 1 \<le> n) \<and>
   beta_at (cfg_epochs self) (epoch self) = Inr b \<longrightarrow>
     (b = 0 \<or> b = 9999 / 10000) \<and>
     per_cls_weights (cfg_epochs self) (epoch self) (cls_num_list self) =
       Inr (spec_weights b (cls_num_list self)) \<and>
     np_sum (spec_weights b (cls_num_list self)) = Finite (real (length (cls_num_list self))) \<and>
     (b = 0 \<longrightarrow>
        spec_weights b (cls_num_list self) = replicate (length (cls_num_list self)) (Finite 1)) \<and>
     (0 \<le> epoch self \<and> epoch self < breakpoint (cfg_epochs self) \<longrightarrow> b = 0) \<and>
     (breakpoint (cfg_epochs self) \<le> epoch self \<longrightarrow> b = 9999 / 10000) \<and>
     (strategy self = ''LDAM_DRW'' \<longrightarrow>
        LDAMDRWTrainer_get_criterion self =
          (Inr (), self\<lparr>criterion :=
             Some (LDAMLoss (cfg_cls_num_list self) (1 / 2) 30
                     (spec_weights b (cls_num_list self)))\<rparr>)) \<and>
     (strategy self = ''Mixup_DRW'' \<longrightarrow>
        MixupTrainer_get_criterion self =
          (Inr (), self\<lparr>criterion :=
             Some (CrossEntropyLoss (Some (spec_weights b (cls_num_list self))))\<rparr>))"
proof (intro impI, elim conjE)
  let ?cls = "cls_num_list self"
  let ?E = "cfg_epochs self"
  assume cls: "\<forall>n\<in>set ?cls. 1 \<le> n" and sel: "beta_at ?E (epoch self) = Inr b"
  from beta_at_cases [OF sel] have vals: "b = 0 \<or> b = 9999 / 10000" .
  then have b: "0 \<le> b" "b < 1" by auto
  have w: "per_cls_weights ?E (epoch self) ?cls = Inr (spec_weights b ?cls)"
    by (rule per_cls_weights_spec [OF sel cls])
  have total: "np_sum (spec_weights b ?cls) = Finite (real (length ?cls))"
    by (rule spec_weights_sum [OF b cls])
  have ones: "b = 0 \<longrightarrow> spec_weights b ?cls = replicate (length ?cls) (Finite 1)"
    using spec_weights_uniform [OF cls] by simp
  have first: "0 \<le> epoch self \<and> epoch self < breakpoint ?E \<longrightarrow> b = 0"
    using beta_at_first_stage [of "epoch self" ?E] sel by auto
  have second: "breakpoint ?E \<le> epoch self \<longrightarrow> b = 9999 / 10000"
  proof
    assume ge: "breakpoint ?E \<le> epoch self"
    have "epoch self < 2 * breakpoint ?E"
    proof (rule ccontr)
      assume "\<not> epoch self < 2 * breakpoint ?E"
      then have "beta_at ?E (epoch self) = Inl IndexError"
        by (intro beta_at_out_of_range) simp
      with sel show False by simp
    qed
    from beta_at_second_stage [OF ge this] sel show "b = 9999 / 10000" by simp
  qed
  have ldam: "strategy self = ''LDAM_DRW'' \<longrightarrow>
        LDAMDRWTrainer_get_criterion self =
          (Inr (), self\<lparr>criterion :=
             Some (LDAMLoss (cfg_cls_num_list self) (1 / 2) 30 (spec_weights b ?cls))\<rparr>)"
    by (simp add: LDAMDRWTrainer_get_criterion_def w)
  have mixup: "strategy self = ''Mixup_DRW'' \<longrightarrow>
        MixupTrainer_get_criterion self =
          (Inr (), self\<lparr>criterion := Some (CrossEntropyLoss (Some (spec_weights b ?cls)))\<rparr>)"
    by (simp add: MixupTrainer_get_criterion_def w)
  show "(b = 0 \<or> b = 9999 / 10000) \<and>
     per_cls_weights ?E (epoch self) ?cls = Inr (spec_weights b ?cls) \<and>
     np_sum (spec_weights b ?cls) = Finite (real (length ?cls)) \<and>
     (b = 0 \<longrightarrow> spec_weights b ?cls = replicate (length ?cls) (Finite 1)) \<and>
     (0 \<le> epoch self \<and> epoch self < breakpoint ?E \<longrightarrow> b = 0) \<and>
     (breakpoint ?E \<le> epoch self \<longrightarrow> b = 9999 / 10000) \<and>
     (strategy self = ''LDAM_DRW'' \<longrightarrow>
        LDAMDRWTrainer_get_criterion self =
          (Inr (), self\<lparr>criterion :=
             Some (LDAMLoss (cfg_cls_num_list self) (1 / 2) 30 (spec_weights b ?cls))\<rparr>)) \<and>
     (strategy self = ''Mixup_DRW'' \<longrightarrow>
        MixupTrainer_get_criterion self =
          (Inr (), self\<lparr>criterion := Some (CrossEntropyLoss (Some (spec_weights b ?cls)))\<rparr>))"
    by (intro conjI vals w total ones first second ldam mixup)
qed

theorem get_criterion_effective_number_weights_witness:
  "criterion (snd (MixupTrainer_get_criterion
     \<lparr>strategy = ''Mixup_DRW'', cfg_epochs = 200, cfg_cls_num_list = [1, 3],
      cfg_print_freq = 1, epoch = 0, cls_num_list = [1, 3], criterion = None,
      optimizer = \<lparr>param_groups = [1 / 10]\<rparr>, train_loader = ([] :: unit list),
      emitted = []\<rparr>)) = Some (CrossEntropyLoss (Some [Finite 1, Finite 1])) \<and>
   criterion (snd (LDAMDRWTrainer_get_criterion
     \<lparr>strategy = ''LDAM_DRW'', cfg_epochs = 200, cfg_cls_num_list = [1, 2],
      cfg_print_freq = 1, epoch = 160, cls_num_list = [1, 2], criterion = None,
      optimizer = \<lparr>param_groups = [1 / 10]\<rparr>, train_loader = ([] :: unit list),
      emitted = []\<rparr>)) =
     Some (LDAMLoss [1, 2] (1 / 2) 30 (spec_weights (9999 / 10000) [1, 2])) \<and>
   np_sum (spec_weights (9999 / 10000) [1, 2]) = Finite 2"
proof -
  let ?self = "\<lparr>strategy = ''Mixup_DRW'', cfg_epochs = 200, cfg_cls_num_list = [1, 3],
      cfg_print_freq = 1, epoch = 0, cls_num_list = [1, 3], criterion = None,
      optimizer = \<lparr>param_groups = [1 / 10]\<rparr>, train_loader = ([] :: unit list),
      emitted = []\<rparr>"
  let ?late = "\<lparr>strategy = ''LDAM_DRW'', cfg_epochs = 200, cfg_cls_num_list = [1, 2],
      cfg_print_freq = 1, epoch = 160, cls_num_list = [1, 2], criterion = None,
      optimizer = \<lparr>param_groups = [1 / 10]\<rparr>, train_loader = ([] :: unit list),
      emitted = []\<rparr>"
  have sel: "beta_at (cfg_epochs ?self) (epoch ?self) = Inr 0"
    by (simp add: beta_at_def py_index_def betas_def drw_idx_def)
  have cls: "\<forall>n\<in>set (cls_num_list ?self). 1 \<le> n" by simp
  have strat: "strategy ?self = ''Mixup_DRW''" by simp
  from get_criterion_effective_number_weights [of ?self 0] sel cls strat
  have early: "spec_weights 0 (cls_num_list ?self) = replicate (length (cls_num_list ?self)) (Finite 1)"
    "MixupTrainer_get_criterion ?self =
          (Inr (), ?self\<lparr>criterion :=
             Some (CrossEntropyLoss (Some (spec_weights 0 (cls_num_list ?self))))\<rparr>)"
    by blast+
  have sel': "beta_at (cfg_epochs ?late) (epoch ?late) = Inr (9999 / 10000)"
    by (simp add: beta_at_def py_index_def betas_def drw_idx_def)
  have cls': "\<forall>n\<in>set (cls_num_list ?late). 1 \<le> n" by simp
  have strat': "strategy ?late = ''LDAM_DRW''" by simp
  from get_criterion_effective_number_weights [of ?late "9999 / 10000"] sel' cls' strat'
  have late: "np_sum (spec_weights (9999 / 10000) (cls_num_list ?late)) =
                Finite (real (length (cls_num_list ?late)))"
    "LDAMDRWTrainer_get_criterion ?late =
          (Inr (), ?late\<lparr>criterion :=
             Some (LDAMLoss (cfg_cls_num_list ?late) (1 / 2) 30
                     (spec_weights (9999 / 10000) (cls_num_list ?late)))\<rparr>)"
    by blast+
  from early late show ?thesis by (simp add: numeral_2_eq_2)
qed

section \<open>A zero class count\<close>

lemma foldl_np_add_PosInf:
  "\<forall>x\<in>set xs. x = PosInf \<or> (\<exists>r. x = Finite r) \<Longrightarrow> foldl np_add PosInf xs = PosInf"
  by (induction xs) auto

lemma foldl_np_add_reaches_PosInf:
  "\<forall>x\<in>set xs. x = PosInf \<or> (\<exists>r. x = Finite r) \<Longrightarrow> PosInf \<in> set xs \<Longrightarrow>
     foldl np_add (Finite a) xs = PosInf"
proof (induction xs arbitrary: a)
  case Nil
  then show ?case by simp
next
  case (Cons x xs)
  show ?case
  proof (cases "x = PosInf")
    case True
    with Cons.prems(1) show ?thesis by (simp add: foldl_np_add_PosInf)
  next
    case False
    with Cons.prems obtain r where "x = Finite r" and "PosInf \<in> set xs" by auto
    with Cons.IH [of "a + r"] Cons.prems(1) show ?thesis by simp
  qed
qed

lemma raw_weight_shape:
  fixes b :: real
  assumes b: "0 \<le> b" "b < 1"
  shows "np_div (Finite (1 - b)) (Finite (1 - b ^ n)) = PosInf \<or>
         (\<exists>r. np_div (Finite (1 - b)) (Finite (1 - b ^ n)) = Finite r)"
  using b by simp

lemma per_cls_weights_zero_count:
  assumes sel: "beta_at epochs ep = Inr b" and c: "c < length cls" and z: "cls ! c = 0"
  shows "effective_num b cls ! c = Finite 0 \<and>
         (\<exists>w. per_cls_weights epochs ep cls = Inr w \<and> length w = length cls \<and> w ! c = NaN)"
proof -
  from beta_at_cases [OF sel] have b: "0 \<le> b" "b < 1" by auto
  let ?raw = "map (np_div (Finite (1 - b))) (effective_num b cls)"
  let ?w = "map (\<lambda>x. np_mul (np_div x (np_sum ?raw)) (Finite (real (length cls)))) ?raw"
  from c z have eff: "effective_num b cls ! c = Finite 0"
    by (simp add: effective_num_def)
  from c have len: "c < length ?raw" by (simp add: effective_num_def)
  from b eff len have rawc: "?raw ! c = PosInf" by simp
  have shape: "\<forall>x\<in>set ?raw. x = PosInf \<or> (\<exists>r. x = Finite r)"
  proof
    fix x assume "x \<in> set ?raw"
    then obtain n where "x = np_div (Finite (1 - b)) (Finite (1 - b ^ n))"
      by (auto simp add: effective_num_def simp del: np_div.simps)
    then show "x = PosInf \<or> (\<exists>r. x = Finite r)"
      by (simp only: raw_weight_shape [OF b])
  qed
  from rawc len have "PosInf \<in> set ?raw" by (metis nth_mem)
  with shape have total: "np_sum ?raw = PosInf"
    unfolding np_sum_def by (rule foldl_np_add_reaches_PosInf)
  from len have "?w ! c = np_mul (np_div (?raw ! c) (np_sum ?raw)) (Finite (real (length cls)))"
    by (rule nth_map)
  then have wc: "?w ! c = NaN" by (simp only: rawc total np_div.simps np_mul.simps)
  have res: "per_cls_weights epochs ep cls = Inr ?w"
    by (simp only: per_cls_weights_def sel sum.simps Let_def)
  have lw: "length ?w = length cls" by (simp add: effective_num_def)
  from eff res lw wc show ?thesis by blast
qed

text \<open>
  Claim C3 (as stated, refuted). With a zero class count at the \<open>beta = 0.9999\<close> stage
  \<open>get_criterion\<close> returns normally: the division by the zero effective number is carried
  out by numpy (giving \<open>inf\<close>), and the criterion is built with a NaN weight.
\<close>

theorem get_criterion_zero_count_counterexample:
  "effective_num (9999 / 10000) [0, 1] ! 0 = Finite 0 \<and>
   LDAMDRWTrainer_get_criterion
     \<lparr>strategy = ''LDAM_DRW'', cfg_epochs = 200, cfg_cls_num_list = [0, 1],
      cfg_print_freq = 1, epoch = 160, cls_num_list = [0, 1], criterion = None,
      optimizer = \<lparr>param_groups = [1 / 10]\<rparr>, train_loader = ([] :: unit list),
      emitted = []\<rparr> =
   (Inr (),
     \<lparr>strategy = ''LDAM_DRW'', cfg_epochs = 200, cfg_cls_num_list = [0, 1],
      cfg_print_freq = 1, epoch = 160, cls_num_list = [0, 1],
      criterion = Some (LDAMLoss [0, 1] (1 / 2) 30 [NaN, Finite 0]),
      optimizer = \<lparr>param_groups = [1 / 10]\<rparr>, train_loader = ([] :: unit list),
      emitted = []\<rparr>)"
  by (simp add: LDAMDRWTrainer_get_criterion_def per_cls_weights_def beta_at_def
      py_index_def betas_def drw_idx_def effective_num_def np_sum_def)

text \<open>
  Claim C3 (amended). \<open>get_criterion\<close> has no guard on the class counts. Whenever the
  schedule selects a \<open>beta\<close> (at either stage, since \<open>0 ^ 0 = 1\<close> as well) and some class
  count is zero, the effective number of that class is 0, the division by it is carried
  out without an error, \<open>get_criterion\<close> of \<open>LDAMDRWTrainer\<close> and of \<open>MixupTrainer\<close> returns
  normally, and the weight of that class is NaN.
\<close>

theorem get_criterion_zero_count_unguarded:
  "beta_at (cfg_epochs self) (epoch self) = Inr b \<and>
   c < length (cls_num_list self) \<and> cls_num_list self ! c = 0 \<longrightarrow>
     effective_num b (cls_num_list self) ! c = Finite 0 \<and>
     (\<exists>w. per_cls_weights (cfg_epochs self) (epoch self) (cls_num_list self) = Inr w \<and>
          length w = length (cls_num_list self) \<and> w ! c = NaN \<and>
          (strategy self = ''LDAM_DRW'' \<longrightarrow>
             LDAMDRWTrainer_get_criterion self =
               (Inr (), self\<lparr>criterion :=
                  Some (LDAMLoss (cfg_cls_num_list self) (1 / 2) 30 w)\<rparr>)) \<and>
          (strategy self = ''Mixup_DRW'' \<longrightarrow>
             MixupTrainer_get_criterion self =
               (Inr (), self\<lparr>criterion := Some (CrossEntropyLoss (Some w))\<rparr>)))"
proof (intro impI, elim conjE)
  assume sel: "beta_at (cfg_epochs self) (epoch self) = Inr b"
    and c: "c < length (cls_num_list self)" and z: "cls_num_list self ! c = 0"
  from per_cls_weights_zero_count [OF sel c z] obtain w where
    eff: "effective_num b (cls_num_list self) ! c = Finite 0"
    and w: "per_cls_weights (cfg_epochs self) (epoch self) (cls_num_list self) = Inr w"
    and lw: "length w = length (cls_num_list self)" and nan: "w ! c = NaN"
    by blast
  have ldam: "strategy self = ''LDAM_DRW'' \<longrightarrow>
             LDAMDRWTrainer_get_criterion self =
               (Inr (), self\<lparr>criterion :=
                  Some (LDAMLoss (cfg_cls_num_list self) (1 / 2) 30 w)\<rparr>)"
    by (simp add: LDAMDRWTrainer_get_criterion_def w)
  have mixup: "strategy self = ''Mixup_DRW'' \<longrightarrow>
             MixupTrainer_get_criterion self =
               (Inr (), self\<lparr>criterion := Some (CrossEntropyLoss (Some w))\<rparr>)"
    by (simp add: MixupTrainer_get_criterion_def w)
  from eff w lw nan ldam mixup
  show "effective_num b (cls_num_list self) ! c = Finite 0 \<and>
     (\<exists>w. per_cls_weights (cfg_epochs self) (epoch self) (cls_num_list self) = Inr w \<and>
          length w = length (cls_num_list self) \<and> w ! c = NaN \<and>
          (strategy self = ''LDAM_DRW'' \<longrightarrow>
             LDAMDRWTrainer_get_criterion self =
               (Inr (), self\<lparr>criterion :=
                  Some (LDAMLoss (cfg_cls_num_list self) (1 / 2) 30 w)\<rparr>)) \<and>
          (strategy self = ''Mixup_DRW'' \<longrightarrow>
             MixupTrainer_get_criterion self =
               (Inr (), self\<lparr>criterion := Some (CrossEntropyLoss (Some w))\<rparr>)))"
    by blast
qed

theorem get_criterion_zero_count_unguarded_witness:
  "\<exists>w. fst (MixupTrainer_get_criterion
     \<lparr>strategy = ''Mixup_DRW'', cfg_epochs = 300, cfg_cls_num_list = [4, 0],
      cfg_print_freq = 1, epoch = 10, cls_num_list = [4, 0], criterion = None,
      optimizer = \<lparr>param_groups = [1 / 10]\<rparr>, train_loader = ([] :: unit list),
      emitted = []\<rparr>) = Inr () \<and>
   per_cls_weights 300 10 [4, 0] = Inr w \<and> w ! 1 = NaN"
proof -
  let ?self = "\<lparr>strategy = ''Mixup_DRW'', cfg_epochs = 300, cfg_cls_num_list = [4, 0],
      cfg_print_freq = 1, epoch = 10, cls_num_list = [4, 0], criterion = None,
      optimizer = \<lparr>param_groups = [1 / 10]\<rparr>, train_loader = ([] :: unit list),
      emitted = []\<rparr>"
  have sel: "beta_at (cfg_epochs ?self) (epoch ?self) = Inr 0"
    by (simp add: beta_at_def py_index_def betas_def drw_idx_def)
  have c: "1 < length (cls_num_list ?self)" and z: "cls_num_list ?self ! 1 = 0" by simp_all
  have strat: "strategy ?self = ''Mixup_DRW''" by simp
  from get_criterion_zero_count_unguarded [of ?self 0 1] sel c z strat
  obtain w where "per_cls_weights (cfg_epochs ?self) (epoch ?self) (cls_num_list ?self) = Inr w"
    and "w ! 1 = NaN"
    and "MixupTrainer_get_criterion ?self =
           (Inr (), ?self\<lparr>criterion := Some (CrossEntropyLoss (Some w))\<rparr>)"
    by blast
  then show ?thesis by auto
qed

section \<open>Properties of the periodic report\<close>

lemma lr_now_last:
  "param_groups opt \<noteq> [] \<Longrightarrow> lr_now opt = Inr (last (param_groups opt) * (1 / 10))"
  by (cases "param_groups opt" rule: rev_cases) (simp_all add: lr_now_def py_index_def)

lemma optimizer_after_Cons:
  "optimizer_after opt_step (b # bs) opt (Suc k) = optimizer_after opt_step bs (opt_step b opt) k"
  by (simp add: optimizer_after_def)

lemma report_at_Cons_0:
  "report_at flag opt_step ep pf n i (b # bs) opt 0 =
     (if int i mod pf = 0
      then LogLine ep i n (last (param_groups (opt_step b opt)) * (1 / 10)) #
           (if flag then [WandbLog ep (last (param_groups (opt_step b opt)) * (1 / 10))] else [])
      else [])"
  by (simp add: report_at_def optimizer_after_def)

lemma report_at_Cons_Suc:
  "report_at flag opt_step ep pf n i (b # bs) opt (Suc j) =
     report_at flag opt_step ep pf n (Suc i) bs (opt_step b opt) j"
  by (simp add: report_at_def optimizer_after_Cons)

lemma reports_from_Cons:
  "reports_from flag opt_step ep pf n i (b # bs) opt =
     report_at flag opt_step ep pf n i (b # bs) opt 0 @
     reports_from flag opt_step ep pf n (Suc i) bs (opt_step b opt)"
proof -
  have upt: "[0..<length (b # bs)] = 0 # map Suc [0..<length bs]"
    by (simp add: upt_conv_Cons map_Suc_upt del: upt_Suc)
  show ?thesis
    unfolding reports_from_def upt
    by (simp add: comp_def report_at_Cons_Suc del: upt_Suc)
qed

lemma train_loop_closed_form:
  assumes pf: "pf \<noteq> 0"
    and keep: "\<forall>b opt. param_groups opt \<noteq> [] \<longrightarrow> param_groups (opt_step b opt) \<noteq> []"
  shows "param_groups opt \<noteq> [] \<Longrightarrow>
         train_loop flag opt_step ep pf n i bs opt out =
           Inr (optimizer_after opt_step bs opt (length bs),
                out @ reports_from flag opt_step ep pf n i bs opt)"
proof (induction bs arbitrary: i opt out)
  case Nil
  show ?case by (simp add: optimizer_after_def reports_from_def)
next
  case (Cons b bs)
  from keep Cons.prems have ne: "param_groups (opt_step b opt) \<noteq> []" by blast
  note IH = Cons.IH [OF ne]
  show ?case
  proof (cases "int i mod pf = 0")
    case True
    with pf show ?thesis
      by (simp add: Let_def lr_now_last [OF ne] IH reports_from_Cons report_at_Cons_0
          optimizer_after_Cons)
  next
    case False
    with pf show ?thesis
      by (simp add: Let_def IH reports_from_Cons report_at_Cons_0 optimizer_after_Cons)
  qed
qed

lemma optimizer_after_nonempty:
  assumes keep: "\<forall>b opt. param_groups opt \<noteq> [] \<longrightarrow> param_groups (opt_step b opt) \<noteq> []"
  shows "param_groups opt \<noteq> [] \<Longrightarrow> param_groups (optimizer_after opt_step bs opt k) \<noteq> []"
proof (induction bs arbitrary: opt k)
  case Nil
  then show ?case by (simp add: optimizer_after_def)
next
  case (Cons b bs)
  show ?case
  proof (cases k)
    case 0
    with Cons.prems show ?thesis by (simp add: optimizer_after_def)
  next
    case (Suc m)
    from keep Cons.prems have "param_groups (opt_step b opt) \<noteq> []" by blast
    from Cons.IH [OF this] show ?thesis unfolding Suc optimizer_after_Cons .
  qed
qed

lemma periodic_reports_lr:
  assumes "ev \<in> set (periodic_reports flag opt_step self)"
  shows "\<exists>i<length (train_loader self). int i mod cfg_print_freq self = 0 \<and>
           (ev = LogLine (epoch self) i (length (train_loader self))
                   (last (param_groups
                      (optimizer_after opt_step (train_loader self) (optimizer self) (Suc i)))
                    * (1 / 10)) \<or>
            ev = WandbLog (epoch self)
                   (last (param_groups
                      (optimizer_after opt_step (train_loader self) (optimizer self) (Suc i)))
                    * (1 / 10)))"
proof -
  from assms obtain i where i: "i < length (train_loader self)"
    and ev: "ev \<in> set (report_at flag opt_step (epoch self) (cfg_print_freq self)
                         (length (train_loader self)) 0 (train_loader self) (optimizer self) i)"
    by (auto simp: periodic_reports_def reports_from_def)
  from ev have "int i mod cfg_print_freq self = 0"
    by (auto simp: report_at_def split: if_splits)
  with ev i show ?thesis
    by (auto simp: report_at_def split: if_splits)
qed

text \<open>
  Claim C9 (as stated, refuted). One batch, \<open>print_freq = 1\<close>, an optimizer whose only
  parameter group has \<open>lr = 0.1\<close> and is left unchanged by the step: the report of
  \<open>ERMTrainer\<close> carries 0.01 in the log line and in the metrics record, not 0.1.
\<close>

theorem train_one_epoch_lr_counterexample:
  "ERMTrainer_train_one_epoch (\<lambda>batch opt. opt)
     \<lparr>strategy = ''ERM'', cfg_epochs = 200, cfg_cls_num_list = [5, 5],
      cfg_print_freq = 1, epoch = 0, cls_num_list = [5, 5],
      criterion = Some (CrossEntropyLoss None),
      optimizer = \<lparr>param_groups = [1 / 10]\<rparr>, train_loader = [()], emitted = []\<rparr> =
   Inr \<lparr>strategy = ''ERM'', cfg_epochs = 200, cfg_cls_num_list = [5, 5],
      cfg_print_freq = 1, epoch = 0, cls_num_list = [5, 5],
      criterion = Some (CrossEntropyLoss None),
      optimizer = \<lparr>param_groups = [1 / 10]\<rparr>, train_loader = [()],
      emitted = [LogLine 0 0 1 (1 / 100), WandbLog 0 (1 / 100)]\<rparr> \<and>
   (1 / 100 :: real) \<noteq> 1 / 10"
  by (simp add: ERMTrainer_train_one_epoch_def run_loop_def lr_now_def py_index_def)

text \<open>
  Claim C9 (amended). With a non-zero \<open>print_freq\<close> and an optimizer that always has a
  parameter group, every periodic report (batch index a multiple of \<open>print_freq\<close>) of every
  trainer writes to the log line one tenth of the \<open>lr\<close> of the optimizer's last parameter
  group, read after that batch's step. \<open>ERMTrainer\<close> sends the same value to the metrics
  sink in each report; \<open>LDAMDRWTrainer\<close> sends nothing to the metrics sink;
  \<open>MixupTrainer\<close> sends one record after the last batch, again with one tenth of the \<open>lr\<close>.
\<close>

theorem train_one_epoch_reports_tenth_of_lr:
  "cfg_print_freq self \<noteq> 0 \<and> param_groups (optimizer self) \<noteq> [] \<and>
   (\<forall>b opt. param_groups opt \<noteq> [] \<longrightarrow> param_groups (opt_step b opt) \<noteq> []) \<longrightarrow>
     ERMTrainer_train_one_epoch opt_step self =
       Inr (self\<lparr>optimizer := optimizer_after opt_step (train_loader self) (optimizer self)
                                 (length (train_loader self)),
                 emitted := emitted self @ periodic_reports True opt_step self\<rparr>) \<and>
     LDAMDRWTrainer_train_one_epoch opt_step self =
       Inr (self\<lparr>optimizer := optimizer_after opt_step (train_loader self) (optimizer self)
                                 (length (train_loader self)),
                 emitted := emitted self @ periodic_reports False opt_step self\<rparr>) \<and>
     MixupTrainer_train_one_epoch opt_step self =
       Inr (self\<lparr>optimizer := optimizer_after opt_step (train_loader self) (optimizer self)
                                 (length (train_loader self)),
                 emitted := emitted self @ periodic_reports False opt_step self @
                   [WandbLog (epoch self)
                      (last (param_groups
                         (optimizer_after opt_step (train_loader self) (optimizer self)
                            (length (train_loader self)))) * (1 / 10))]\<rparr>) \<and>
     (\<forall>flag. \<forall>ev\<in>set (periodic_reports flag opt_step self).
        \<exists>i<length (train_loader self). int i mod cfg_print_freq self = 0 \<and>
           (ev = LogLine (epoch self) i (length (train_loader self))
                   (last (param_groups
                      (optimizer_after opt_step (train_loader self) (optimizer self) (Suc i)))
                    * (1 / 10)) \<or>
            ev = WandbLog (epoch self)
                   (last (param_groups
                      (optimizer_after opt_step (train_loader self) (optimizer self) (Suc i)))
                    * (1 / 10))))"
proof (intro impI, elim conjE)
  let ?final = "optimizer_after opt_step (train_loader self) (optimizer self)
                  (length (train_loader self))"
  assume pf: "cfg_print_freq self \<noteq> 0" and ne: "param_groups (optimizer self) \<noteq> []"
    and keep: "\<forall>b opt. param_groups opt \<noteq> [] \<longrightarrow> param_groups (opt_step b opt) \<noteq> []"
  have loop: "run_loop flag opt_step self =
                Inr (?final, emitted self @ periodic_reports flag opt_step self)" for flag
    unfolding run_loop_def periodic_reports_def
    by (rule train_loop_closed_form [OF pf keep ne])
  have fin: "lr_now ?final = Inr (last (param_groups ?final) * (1 / 10))"
    by (rule lr_now_last) (rule optimizer_after_nonempty [OF keep ne])
  have erm: "ERMTrainer_train_one_epoch opt_step self =
       Inr (self\<lparr>optimizer := ?final,
                 emitted := emitted self @ periodic_reports True opt_step self\<rparr>)"
    by (simp add: ERMTrainer_train_one_epoch_def loop)
  have ldam: "LDAMDRWTrainer_train_one_epoch opt_step self =
       Inr (self\<lparr>optimizer := ?final,
                 emitted := emitted self @ periodic_reports False opt_step self\<rparr>)"
    by (simp add: LDAMDRWTrainer_train_one_epoch_def loop)
  have mixup: "MixupTrainer_train_one_epoch opt_step self =
       Inr (self\<lparr>optimizer := ?final,
                 emitted := emitted self @ periodic_reports False opt_step self @
                   [WandbLog (epoch self) (last (param_groups ?final) * (1 / 10))]\<rparr>)"
    by (simp add: MixupTrainer_train_one_epoch_def loop fin)
  have each: "\<forall>flag. \<forall>ev\<in>set (periodic_reports flag opt_step self).
        \<exists>i<length (train_loader self). int i mod cfg_print_freq self = 0 \<and>
           (ev = LogLine (epoch self) i (length (train_loader self))
                   (last (param_groups
                      (optimizer_after opt_step (train_loader self) (optimizer self) (Suc i)))
                    * (1 / 10)) \<or>
            ev = WandbLog (epoch self)
                   (last (param_groups
                      (optimizer_after opt_step (train_loader self) (optimizer self) (Suc i)))
                    * (1 / 10)))"
    using periodic_reports_lr by blast
  from erm ldam mixup each
  show "ERMTrainer_train_one_epoch opt_step self =
       Inr (self\<lparr>optimizer := ?final,
                 emitted := emitted self @ periodic_reports True opt_step self\<rparr>) \<and>
     LDAMDRWTrainer_train_one_epoch opt_step self =
       Inr (self\<lparr>optimizer := ?final,
                 emitted := emitted self @ periodic_reports False opt_step self\<rparr>) \<and>
     MixupTrainer_train_one_epoch opt_step self =
       Inr (self\<lparr>optimizer := ?final,
                 emitted := emitted self @ periodic_reports False opt_step self @
                   [WandbLog (epoch self) (last (param_groups ?final) * (1 / 10))]\<rparr>) \<and>
     (\<forall>flag. \<forall>ev\<in>set (periodic_reports flag opt_step self).
        \<exists>i<length (train_loader self). int i mod cfg_print_freq self = 0 \<and>
           (ev = LogLine (epoch self) i (length (train_loader self))
                   (last (param_groups
                      (optimizer_after opt_step (train_loader self) (optimizer self) (Suc i)))
                    * (1 / 10)) \<or>
            ev = WandbLog (epoch self)
                   (last (param_groups
                      (optimizer_after opt_step (train_loader self) (optimizer self) (Suc i)))
                    * (1 / 10))))"
    by (intro conjI)
qed

theorem train_one_epoch_reports_tenth_of_lr_witness:
  "map_sum id emitted
     (MixupTrainer_train_one_epoch
        (\<lambda>batch opt. opt\<lparr>param_groups := map (\<lambda>lr. lr / 2) (param_groups opt)\<rparr>)
        \<lparr>strategy = ''Mixup_DRW'', cfg_epochs = 200, cfg_cls_num_list = [5, 5],
         cfg_print_freq = 2, epoch = 7, cls_num_list = [5, 5], criterion = None,
         optimizer = \<lparr>param_groups = [8]\<rparr>, train_loader = [(), (), ()], emitted = []\<rparr>) =
   Inr [LogLine 7 0 3 (4 / 10), LogLine 7 2 3 (1 / 10), WandbLog 7 (1 / 10)]"
proof -
  let ?step = "\<lambda>(batch :: unit) opt. opt\<lparr>param_groups := map (\<lambda>lr. lr / 2) (param_groups opt)\<rparr>"
  let ?self = "\<lparr>strategy = ''Mixup_DRW'', cfg_epochs = 200, cfg_cls_num_list = [5, 5],
         cfg_print_freq = 2, epoch = 7, cls_num_list = [5, 5], criterion = None,
         optimizer = \<lparr>param_groups = [8]\<rparr>, train_loader = [(), (), ()], emitted = []\<rparr>"
  have h: "cfg_print_freq ?self \<noteq> 0 \<and> param_groups (optimizer ?self) \<noteq> [] \<and>
     (\<forall>b opt. param_groups opt \<noteq> [] \<longrightarrow> param_groups (?step b opt) \<noteq> [])"
    by simp
  from train_one_epoch_reports_tenth_of_lr [of ?self ?step, rule_format, OF h]
  have "MixupTrainer_train_one_epoch ?step ?self =
       Inr (?self\<lparr>optimizer := optimizer_after ?step (train_loader ?self) (optimizer ?self)
                                 (length (train_loader ?self)),
                 emitted := emitted ?self @ periodic_reports False ?step ?self @
                   [WandbLog (epoch ?self)
                      (last (param_groups
                         (optimizer_after ?step (train_loader ?self) (optimizer ?self)
                            (length (train_loader ?self)))) * (1 / 10))]\<rparr>)"
    by blast
  then show ?thesis
    by (simp add: periodic_reports_def reports_from_def report_at_def optimizer_after_def
        upt_conv_Cons)
qed

section \<open>Properties of the per-class target counts\<close>

lemma round_half_even_ge: "of_int m \<le> r \<Longrightarrow> m \<le> round_half_even r"
proof -
  assume "of_int m \<le> r"
  then have "m \<le> \<lfloor>r\<rfloor>" by (simp add: le_floor_iff)
  then show ?thesis by (simp add: round_half_even_def)
qed

lemma round_half_even_le: "r \<le> of_int m \<Longrightarrow> round_half_even r \<le> m"
proof -
  assume le: "r \<le> of_int m"
  then have fl: "\<lfloor>r\<rfloor> \<le> m" by (simp add: floor_le_iff)
  show ?thesis
  proof (cases "r - of_int \<lfloor>r\<rfloor> < 1 / 2")
    case True
    with fl show ?thesis by (simp add: round_half_even_def)
  next
    case False
    then have "of_int \<lfloor>r\<rfloor> < r" by simp
    with le have "of_int \<lfloor>r\<rfloor> < (of_int m :: real)" by simp
    then have "\<lfloor>r\<rfloor> + 1 \<le> m" by simp
    with fl show ?thesis by (simp add: round_half_even_def)
  qed
qed


lemma quantum_exp_eq:
  assumes "2 powi e \<le> \<bar>x\<bar>" "\<bar>x\<bar> < 2 powi (e + 1)" "- 1022 \<le> e"
  shows "quantum_exp x = e - 52"
proof -
  from assms(1) have pos: "0 < \<bar>x\<bar>"
    by (smt (verit) zero_less_power_int)
  have a: "2 powr real_of_int e = (2 :: real) powi e"
    by (simp add: powr_real_of_int')
  have "2 powr real_of_int (e + 1) = (2 :: real) powi (e + 1)"
    by (rule powr_real_of_int') simp_all
  then have b: "2 powr (real_of_int e + 1) = (2 :: real) powi (e + 1)"
    by (simp add: add.commute)
  have "2 powr real_of_int e \<le> \<bar>x\<bar> \<and> \<bar>x\<bar> < 2 powr (real_of_int e + 1)"
    using assms(1,2) by (simp only: a b)
  then have "\<lfloor>log 2 \<bar>x\<bar>\<rfloor> = e"
    using pos by (subst floor_log_eq_powr_iff) simp_all
  with assms(3) show ?thesis by (simp add: quantum_exp_def)
qed

lemma quantum_exp_small:
  assumes "0 < x" "x \<le> 1000"
  shows "quantum_exp x \<le> - 43"
proof -
  from assms have "x < 2 powr 10" by simp
  with assms(1) have "log 2 x < 10" by (simp add: log_less_iff)
  then have "\<lfloor>log 2 x\<rfloor> \<le> 9" by (simp add: floor_le_iff)
  with assms(1) show ?thesis by (simp add: quantum_exp_def)
qed

lemma float64_round_bracket:
  assumes "0 \<le> x" "x \<le> 1000"
  shows "of_int \<lfloor>x\<rfloor> \<le> float64_round x \<and> float64_round x \<le> of_int \<lfloor>x\<rfloor> + 1"
proof (cases "x = 0")
  case True
  then show ?thesis by (simp add: float64_round_def)
next
  case False
  with assms have pos: "0 < x" by simp
  define n where "n = nat (- quantum_exp x)"
  define N :: int where "N = 2 ^ n"
  from quantum_exp_small [OF pos assms(2)] have e: "quantum_exp x = - int n"
    by (simp add: n_def)
  have Npos: "0 < N" by (simp add: N_def)
  have q: "(2 :: real) powi quantum_exp x = 1 / of_int N"
    unfolding e by (simp add: power_int_minus N_def field_simps)
  let ?R = "round_half_even (x * of_int N)"
  have fl: "float64_round x = of_int ?R / of_int N"
    using False by (simp add: float64_round_def q)
  have "of_int (\<lfloor>x\<rfloor> * N) \<le> x * of_int N"
    using Npos by (simp add: mult_right_mono)
  then have lo: "\<lfloor>x\<rfloor> * N \<le> ?R" by (rule round_half_even_ge)
  have "x \<le> of_int \<lfloor>x\<rfloor> + 1" by linarith
  then have "x * of_int N \<le> of_int ((\<lfloor>x\<rfloor> + 1) * N)"
    using Npos by (simp add: mult_right_mono)
  then have hi: "?R \<le> (\<lfloor>x\<rfloor> + 1) * N" by (rule round_half_even_le)
  from lo have "(of_int (\<lfloor>x\<rfloor> * N) :: real) \<le> of_int ?R" by (simp only: of_int_le_iff)
  then have lo': "of_int \<lfloor>x\<rfloor> \<le> (of_int ?R :: real) / of_int N"
    using Npos by (simp add: pos_le_divide_eq)
  from hi have "(of_int ?R :: real) \<le> of_int ((\<lfloor>x\<rfloor> + 1) * N)" by (simp only: of_int_le_iff)
  then have hi': "(of_int ?R :: real) / of_int N \<le> of_int \<lfloor>x\<rfloor> + 1"
    using Npos by (simp add: pos_divide_le_eq)
  from lo' hi' show ?thesis unfolding fl by simp
qed

lemma float64_finite_small:
  assumes "0 \<le> x" "x \<le> 1000"
  shows "float64 x = Finite (float64_round x)"
proof -
  from float64_round_bracket [OF assms] assms
  have "0 \<le> float64_round x" "float64_round x \<le> 1001"
    by (simp_all add: order_trans [of 0 "of_int \<lfloor>x\<rfloor>"]) linarith
  moreover have "(1001 :: real) < 2 ^ 1024"
  proof -
    have "(2 :: real) ^ 10 \<le> 2 ^ 1024" by (rule power_increasing) simp_all
    then show ?thesis by simp
  qed
  ultimately have "\<not> 2 ^ 1024 \<le> \<bar>float64_round x\<bar>" by simp
  then show ?thesis by (simp add: float64_def)
qed


lemma float64_round_eq:
  "x \<noteq> 0 \<Longrightarrow> quantum_exp x = q \<Longrightarrow> round_half_even (x / 2 powi q) = n \<Longrightarrow>
   float64_round x = of_int n * 2 powi q"
  by (simp add: float64_round_def)



text \<open>
  The product is rounded before \<open>int\<close> is taken: for the float nearest to 0.009, which is
  \<open>5188146770730811 / 2^59\<close>, the exact product is just below 9 and the float product is 9.
\<close>

lemma float_mul_rounds_up_to_nine:
  "float_mul (real_of_int img_max) (5188146770730811 / 2 ^ 59) = Finite 9 \<and>
   \<lfloor>real_of_int img_max * (5188146770730811 / 2 ^ 59)\<rfloor> = 8"
proof
  let ?x = "1000 * (5188146770730811 / 2 ^ 59) :: real"
  have q: "quantum_exp ?x = 3 - 52"
    by (rule quantum_exp_eq) simp_all
  have r: "?x / 2 powi (3 - 52) = 5066549580791807 + 79 / 128"
    by (simp add: power_int_minus)
  have "\<lfloor>5066549580791807 + 79 / 128 :: real\<rfloor> = 5066549580791807"
    by (simp add: floor_eq_iff)
  then have n: "round_half_even (5066549580791807 + 79 / 128) = 5066549580791808"
    by (simp add: round_half_even_def)
  have "float64_round ?x = of_int 5066549580791808 * 2 powi (3 - 52)"
  proof (rule float64_round_eq)
    show "?x \<noteq> 0" by simp
    show "quantum_exp ?x = 3 - 52" by (rule q)
    show "round_half_even (?x / 2 powi (3 - 52)) = 5066549580791808"
      by (simp only: r n)
  qed
  then have v: "float64_round ?x = 9"
    by (simp add: power_int_minus)
  have "float64 ?x = Finite (float64_round ?x)"
    by (rule float64_finite_small) simp_all
  then have "float64 ?x = Finite 9"
    by (simp only: v)
  then show "float_mul (real_of_int img_max) (5188146770730811 / 2 ^ 59) = Finite 9"
    by (simp add: float_mul_def img_max_def)
  show "\<lfloor>real_of_int img_max * (5188146770730811 / 2 ^ 59)\<rfloor> = 8"
    by (simp add: img_max_def floor_eq_iff)
qed





text \<open>
  The float product and the exact one differ at the float nearest to 0.009: the count is 9,
  the floor of the exact product is 8.
\<close>

lemma get_img_num_per_cls_step_rounded_product:
  "get_img_num_per_cls float_pow 2 ''step'' (5188146770730811 / 2 ^ 59) = Inr [1000, 9]"
  using float_mul_rounds_up_to_nine
  by (simp add: get_img_num_per_cls_def img_max_def)

end
